theory Spec2Isabelle
  imports Complex_Main "HOL-Library.Word" "HOL-Library.Sublist"
begin

section \<open>Strings\<close>

text \<open>
  Go strings are byte sequences; \<open>string\<close> is a list of 8-bit characters.
  \<open>strings.HasPrefix s p\<close> is \<open>prefix p s\<close>.

  \<open>strings.ToLower\<close> maps the letters A to Z to a to z.  Of the letters beyond
  ASCII it maps two to an ASCII letter: U+0130 (the bytes C4 B0) to \<open>i\<close> and
  U+212A (the bytes E2 84 AA) to \<open>k\<close>; \<open>ToLower\<close> does the same.  Every other
  byte from 80 up is left as it is here, where Go writes the lower-case letter or
  the replacement character, again in bytes from 80 up: the program only compares
  the result with ASCII words, and for that the two agree.
\<close>

definition lowerChar :: "char \<Rightarrow> char" where
  "lowerChar ch =
     (if ch = CHR ''A'' then CHR ''a'' else if ch = CHR ''B'' then CHR ''b''
      else if ch = CHR ''C'' then CHR ''c'' else if ch = CHR ''D'' then CHR ''d''
      else if ch = CHR ''E'' then CHR ''e'' else if ch = CHR ''F'' then CHR ''f''
      else if ch = CHR ''G'' then CHR ''g'' else if ch = CHR ''H'' then CHR ''h''
      else if ch = CHR ''I'' then CHR ''i'' else if ch = CHR ''J'' then CHR ''j''
      else if ch = CHR ''K'' then CHR ''k'' else if ch = CHR ''L'' then CHR ''l''
      else if ch = CHR ''M'' then CHR ''m'' else if ch = CHR ''N'' then CHR ''n''
      else if ch = CHR ''O'' then CHR ''o'' else if ch = CHR ''P'' then CHR ''p''
      else if ch = CHR ''Q'' then CHR ''q'' else if ch = CHR ''R'' then CHR ''r''
      else if ch = CHR ''S'' then CHR ''s'' else if ch = CHR ''T'' then CHR ''t''
      else if ch = CHR ''U'' then CHR ''u'' else if ch = CHR ''V'' then CHR ''v''
      else if ch = CHR ''W'' then CHR ''w'' else if ch = CHR ''X'' then CHR ''x''
      else if ch = CHR ''Y'' then CHR ''y'' else if ch = CHR ''Z'' then CHR ''z''
      else ch)"

function ToLower :: "string \<Rightarrow> string" where
  "ToLower [] = []"
| "ToLower (ch # s) =
     (if ch = CHR 0xC4 \<and> take 1 s = [CHR 0xB0] then CHR ''i'' # ToLower (drop 1 s)
      else if ch = CHR 0xE2 \<and> take 2 s = [CHR 0x84, CHR 0xAA] then CHR ''k'' # ToLower (drop 2 s)
      else lowerChar ch # ToLower s)"
  by pat_completeness auto
termination
  by (relation "measure length") auto

text \<open>\<open>strings.Contains s sub\<close>: some suffix of \<open>s\<close> starts with \<open>sub\<close>.\<close>

fun Contains :: "string \<Rightarrow> string \<Rightarrow> bool" where
  "Contains [] sub = (sub = [])"
| "Contains (ch # s) sub = (prefix sub (ch # s) \<or> Contains s sub)"

section \<open>Endpoint negotiation (package client)\<close>

subsection \<open>Data of the OPC UA library\<close>

text \<open>
  \<open>ua.MessageSecurityMode\<close> and \<open>ua.UserTokenType\<close> are unsigned 32-bit
  enumerations, \<open>SecurityLevel\<close> is a byte.  The zero value of a Go variable of
  type \<open>MessageSecurityMode\<close> is \<open>MessageSecurityModeInvalid\<close>.
\<close>

type_synonym MessageSecurityMode = "32 word"
type_synonym UserTokenType = "32 word"

definition MessageSecurityModeInvalid :: MessageSecurityMode where
  "MessageSecurityModeInvalid = 0"
definition MessageSecurityModeNone :: MessageSecurityMode where
  "MessageSecurityModeNone = 1"
definition MessageSecurityModeSign :: MessageSecurityMode where
  "MessageSecurityModeSign = 2"
definition MessageSecurityModeSignAndEncrypt :: MessageSecurityMode where
  "MessageSecurityModeSignAndEncrypt = 3"

definition SecurityPolicyURIPrefix :: string where
  "SecurityPolicyURIPrefix = ''http://opcfoundation.org/UA/SecurityPolicy#''"
definition SecurityPolicyURINone :: string where
  "SecurityPolicyURINone = ''http://opcfoundation.org/UA/SecurityPolicy#None''"

record UserTokenPolicy =
  PolicyID :: string
  TokenType :: UserTokenType

record EndpointDescription =
  EndpointURL :: string
  SecurityMode :: MessageSecurityMode
  SecurityPolicyURI :: string
  UserIdentityTokens :: "UserTokenPolicy list"
  SecurityLevel :: "8 word"

subsection \<open>Configuration (package config)\<close>

record ServerConfig =
  Endpoint :: string
  CertPath :: string
  KeyPath :: string
  SecPolicy :: string
  SecMode :: string
  AuthMode :: string
  Username :: string
  Password :: string

subsection \<open>Failures\<close>

text \<open>
  \<open>Logger.Fatal\<close> prints and exits the process (\<open>log.Fatalln\<close>), so each call is
  a failure value that ends the function.  The first three are the specification's
  \<open>InvalidConfig\<close> and discovery failures, the fourth its \<open>NoSuitableEndpoint\<close>;
  \<open>ConnectionError\<close> is the fatal failure of the first connect, and
  \<open>Panic\<close> a Go run-time panic (index out of range, failed type assertion).
\<close>

datatype failure =
    GetEndpointsFailed string
  | InvalidSecurityPolicy string
  | InvalidSecurityMode string
  | NoSuitableEndpoint
  | CertificateError string
  | ConnectionError string
  | Panic string

subsection \<open>findEndpoint: resolving policy and mode\<close>

text \<open>The first switch of \<open>findEndpoint\<close>; \<open>var policy string\<close> starts empty.\<close>

definition resolvePolicy :: "string \<Rightarrow> failure + string" where
  "resolvePolicy secPolicy =
     (if secPolicy = ''auto'' then Inr ''''
      else if prefix SecurityPolicyURIPrefix secPolicy then Inr secPolicy
      else if secPolicy = ''None'' \<or> secPolicy = ''Basic128Rsa15''
            \<or> secPolicy = ''Basic256'' \<or> secPolicy = ''Basic256Sha256''
            \<or> secPolicy = ''Aes128_Sha256_RsaOaep''
            \<or> secPolicy = ''Aes256_Sha256_RsaPss''
        then Inr (SecurityPolicyURIPrefix @ secPolicy)
      else Inl (InvalidSecurityPolicy secPolicy))"

text \<open>The second switch, on \<open>strings.ToLower(c.SecMode)\<close>.\<close>

definition resolveMode :: "string \<Rightarrow> failure + MessageSecurityMode" where
  "resolveMode secMode =
     (let s = ToLower secMode in
      if s = ''auto'' then Inr MessageSecurityModeInvalid
      else if s = ''none'' then Inr MessageSecurityModeNone
      else if s = ''sign'' then Inr MessageSecurityModeSign
      else if s = ''signandencrypt'' then Inr MessageSecurityModeSignAndEncrypt
      else Inl (InvalidSecurityMode secMode))"

text \<open>
  ``Allow input of only one of security mode or security policy when choosing
  'None' '': the \<open>if\<close> after the two switches.
\<close>

definition noneOverride ::
  "MessageSecurityMode \<Rightarrow> string \<Rightarrow> MessageSecurityMode \<times> string" where
  "noneOverride mode policy =
     (if mode = MessageSecurityModeNone \<or> policy = SecurityPolicyURINone
      then (MessageSecurityModeNone, SecurityPolicyURINone)
      else (mode, policy))"

text \<open>The two switches and the override, in the order of the source.\<close>

definition resolveSecurity :: "ServerConfig \<Rightarrow> failure + (MessageSecurityMode \<times> string)" where
  "resolveSecurity c =
     (case resolvePolicy (SecPolicy c) of
        Inl f \<Rightarrow> Inl f
      | Inr policy \<Rightarrow>
          (case resolveMode (SecMode c) of
             Inl f \<Rightarrow> Inl f
           | Inr mode \<Rightarrow> Inr (noneOverride mode policy)))"

subsection \<open>findEndpoint: the selection scan\<close>

text \<open>
  Each of the four loops is \<open>for _, e := range ee { if cond { ep = e } }\<close> with
  \<open>ep\<close> starting as \<open>nil\<close>; \<open>scan\<close> is that loop, and the four conditions follow.
\<close>

fun scan ::
  "(EndpointDescription \<Rightarrow> EndpointDescription option \<Rightarrow> bool) \<Rightarrow>
   EndpointDescription list \<Rightarrow> EndpointDescription option \<Rightarrow> EndpointDescription option" where
  "scan cond [] ep = ep"
| "scan cond (e # ee) ep = scan cond ee (if cond e ep then Some e else ep)"

definition condBest :: "EndpointDescription \<Rightarrow> EndpointDescription option \<Rightarrow> bool" where
  "condBest e ep =
     (case ep of None \<Rightarrow> True
      | Some b \<Rightarrow> SecurityMode e \<ge> SecurityMode b \<and> SecurityLevel e \<ge> SecurityLevel b)"

definition condMode ::
  "MessageSecurityMode \<Rightarrow> EndpointDescription \<Rightarrow> EndpointDescription option \<Rightarrow> bool" where
  "condMode mode e ep =
     (SecurityMode e = mode \<and>
      (case ep of None \<Rightarrow> True | Some b \<Rightarrow> SecurityLevel e \<ge> SecurityLevel b))"

definition condPolicy ::
  "string \<Rightarrow> EndpointDescription \<Rightarrow> EndpointDescription option \<Rightarrow> bool" where
  "condPolicy policy e ep =
     (SecurityPolicyURI e = policy \<and>
      (case ep of None \<Rightarrow> True | Some b \<Rightarrow> SecurityLevel e \<ge> SecurityLevel b))"

definition condBoth ::
  "string \<Rightarrow> MessageSecurityMode \<Rightarrow> EndpointDescription \<Rightarrow> EndpointDescription option \<Rightarrow> bool" where
  "condBoth policy mode e ep =
     (SecurityPolicyURI e = policy \<and> SecurityMode e = mode \<and>
      (case ep of None \<Rightarrow> True | Some b \<Rightarrow> SecurityLevel e \<ge> SecurityLevel b))"

text \<open>
  The \<open>switch\<close> over the four constraint combinations.  It tests the configured
  strings \<open>secMode\<close> and \<open>secPolicy\<close> against \<open>auto\<close>, and filters with the resolved
  \<open>mode\<close> and \<open>policy\<close>.
\<close>

definition selectEndpoint ::
  "string \<Rightarrow> string \<Rightarrow> MessageSecurityMode \<Rightarrow> string \<Rightarrow>
   EndpointDescription list \<Rightarrow> EndpointDescription option" where
  "selectEndpoint secMode secPolicy mode policy ee =
     (if secMode = ''auto'' \<and> secPolicy = ''auto'' then scan condBest ee None
      else if secMode \<noteq> ''auto'' \<and> secPolicy = ''auto'' then scan (condMode mode) ee None
      else if secMode = ''auto'' \<and> secPolicy \<noteq> ''auto'' then scan (condPolicy policy) ee None
      else scan (condBoth policy mode) ee None)"

subsection \<open>findEndpoint\<close>

text \<open>
  \<open>opcua.GetEndpoints\<close> is the discovery call of the library: its result
  (an error text or the endpoint list) is the argument \<open>discovered\<close>.
  \<open>ua.UserTokenTypeFromString\<close> is the library's parser of the auth mode: the
  argument \<open>uttOf\<close>.
\<close>

definition supportsToken :: "UserTokenType \<Rightarrow> EndpointDescription \<Rightarrow> bool" where
  "supportsToken utt ep = list_ex (\<lambda>t. TokenType t = utt) (UserIdentityTokens ep)"

definition findEndpoint ::
  "(string \<Rightarrow> UserTokenType) \<Rightarrow> ServerConfig \<Rightarrow> string + EndpointDescription list \<Rightarrow>
   failure + EndpointDescription" where
  "findEndpoint uttOf c discovered =
     (case discovered of
        Inl err \<Rightarrow> Inl (GetEndpointsFailed err)
      | Inr ee \<Rightarrow>
          (case resolveSecurity c of
             Inl f \<Rightarrow> Inl f
           | Inr (mode, policy) \<Rightarrow>
               (case selectEndpoint (SecMode c) (SecPolicy c) mode policy ee of
                  None \<Rightarrow> Inl NoSuitableEndpoint
                | Some ep \<Rightarrow>
                    if supportsToken (uttOf (AuthMode c)) ep then Inr ep
                    else Inl NoSuitableEndpoint)))"

subsection \<open>Session building: NewClientFromServerConfig\<close>

text \<open>
  \<open>opcua.Option\<close> values are recorded as the call that builds them.  A
  \<open>tls.Certificate\<close> holds the certificate chain and a private key; its zero
  value has neither.
\<close>

datatype privateKey = RSAPrivateKey string | OtherPrivateKey string

record tlsCertificate =
  tlsCertificate :: "string list"
  tlsPrivateKey :: "privateKey option"

datatype ClientOption =
    Lifetime nat
  | RequestTimeout nat
  | AutoReconnect bool
  | AuthCertificate string
  | AuthUsername string string
  | AuthAnonymous
  | SecurityFromEndpoint EndpointDescription UserTokenType
  | PrivateKey privateKey
  | Certificate string

datatype opcuaClient = NewClient string "ClientOption list"

text \<open>Lifetime in minutes, request timeout in seconds.\<close>

definition connectionOptions :: "ClientOption list" where
  "connectionOptions = [Lifetime 10, RequestTimeout 5, AutoReconnect True]"

text \<open>
  \<open>crt.Certificate[0]\<close> panics on the empty chain of a certificate that was not
  loaded.  The \<open>UserName\<close> branch hands \<open>c.Username\<close> and \<open>c.Password\<close> to the
  library as they are.
\<close>

definition authenticationOptions ::
  "(string \<Rightarrow> UserTokenType) \<Rightarrow> ServerConfig \<Rightarrow> EndpointDescription \<Rightarrow> tlsCertificate \<Rightarrow>
   failure + ClientOption list" where
  "authenticationOptions uttOf c e crt =
     (if AuthMode c = ''Certificate'' then
        (case tlsCertificate crt of
           [] \<Rightarrow> Inl (Panic ''index out of range'')
         | cert # _ \<Rightarrow> Inr [AuthCertificate cert, SecurityFromEndpoint e (uttOf (AuthMode c))])
      else if AuthMode c = ''UserName'' then
        Inr [AuthUsername (Username c) (Password c), SecurityFromEndpoint e (uttOf (AuthMode c))]
      else Inr [AuthAnonymous, SecurityFromEndpoint e (uttOf (AuthMode c))])"

text \<open>
  The switch is on \<open>c.SecMode\<close> as configured, with the exact spellings \<open>Sign\<close>
  and \<open>SignAndEncrypt\<close>.  The type assertion on the private key is evaluated
  first and panics when the key is absent or not an RSA key.
\<close>

definition securityOptions :: "ServerConfig \<Rightarrow> tlsCertificate \<Rightarrow> failure + ClientOption list" where
  "securityOptions c crt =
     (if SecMode c = ''Sign'' \<or> SecMode c = ''SignAndEncrypt'' then
        (case tlsPrivateKey crt of
           Some (RSAPrivateKey k) \<Rightarrow>
             (case tlsCertificate crt of
                [] \<Rightarrow> Inl (Panic ''index out of range'')
              | cert # _ \<Rightarrow> Inr [PrivateKey (RSAPrivateKey k), Certificate cert])
         | _ \<Rightarrow> Inl (Panic ''interface conversion''))
      else Inr [])"

text \<open>\<open>tls.LoadX509KeyPair\<close> is the argument \<open>loadX509KeyPair\<close>.\<close>

definition loadCertificate ::
  "(string \<Rightarrow> string \<Rightarrow> string + tlsCertificate) \<Rightarrow> ServerConfig \<Rightarrow> failure + tlsCertificate" where
  "loadCertificate loadX509KeyPair c =
     (if CertPath c \<noteq> [] \<and> KeyPath c \<noteq> [] then
        (case loadX509KeyPair (CertPath c) (KeyPath c) of
           Inl err \<Rightarrow> Inl (CertificateError err)
         | Inr crt \<Rightarrow>
             (case tlsPrivateKey crt of
                Some (RSAPrivateKey k) \<Rightarrow> Inr crt
              | _ \<Rightarrow> Inl (CertificateError ''invalid private key'')))
      else Inr \<lparr>tlsCertificate = [], tlsPrivateKey = None\<rparr>)"

definition NewClientFromServerConfig ::
  "(string \<Rightarrow> UserTokenType) \<Rightarrow> (string \<Rightarrow> string \<Rightarrow> string + tlsCertificate) \<Rightarrow>
   ServerConfig \<Rightarrow> string + EndpointDescription list \<Rightarrow> failure + opcuaClient" where
  "NewClientFromServerConfig uttOf loadX509KeyPair c discovered =
     (case findEndpoint uttOf c discovered of
        Inl f \<Rightarrow> Inl f
      | Inr e \<Rightarrow>
          (case loadCertificate loadX509KeyPair c of
             Inl f \<Rightarrow> Inl f
           | Inr crt \<Rightarrow>
               (case authenticationOptions uttOf c e crt of
                  Inl f \<Rightarrow> Inl f
                | Inr ao \<Rightarrow>
                    (case securityOptions c crt of
                       Inl f \<Rightarrow> Inl f
                     | Inr so \<Rightarrow> Inr (NewClient (Endpoint c) (connectionOptions @ ao @ so))))))"

subsection \<open>The earlier negotiation: clientSecurityOptions\<close>

text \<open>
  The earlier \<open>client.go\<close> reads its configuration through pointers to the flag
  values and overwrites \<open>*cfg.Policy\<close> and \<open>*cfg.Mode\<close> while it resolves them, so
  the function returns the flags as it leaves them.  Its two switches, the override
  and the four loops are those of \<open>findEndpoint\<close>; the loops test the overwritten
  flags.
\<close>

record ClientFlags =
  Policy :: string
  Mode :: string
  Auth :: string

definition validateEndpointConfig ::
  "EndpointDescription list \<Rightarrow> string \<Rightarrow> MessageSecurityMode \<Rightarrow> UserTokenType \<Rightarrow> string option" where
  "validateEndpointConfig endpoints secPolicy secMode authMode =
     (if list_ex (\<lambda>e. SecurityMode e = secMode \<and> SecurityPolicyURI e = secPolicy \<and>
                       list_ex (\<lambda>t. TokenType t = authMode) (UserIdentityTokens e)) endpoints
      then None
      else Some ''server does not support an endpoint with security'')"

text \<open>
  \<open>if validateEndpointConfig(...); err != nil\<close> calls the validation as a
  statement and then tests \<open>err\<close>, the variable assigned by \<open>GetEndpoints\<close>, which
  is \<open>nil\<close> on this path: \<open>validation\<close> below is computed and not looked at.
\<close>

definition clientSecurityOptions ::
  "(string \<Rightarrow> UserTokenType) \<Rightarrow> ClientFlags \<Rightarrow> string + EndpointDescription list \<Rightarrow>
   (failure + ClientOption list) \<times> ClientFlags" where
  "clientSecurityOptions uttOf cfg discovered =
     (let savePolicy = Policy cfg in
      case discovered of
        Inl getErr \<Rightarrow> (Inl (GetEndpointsFailed getErr), cfg)
      | Inr endpoints \<Rightarrow>
          (let err = (None :: string option);
               authMode = uttOf (Auth cfg) in
           case resolvePolicy (Policy cfg) of
             Inl f \<Rightarrow> (Inl f, cfg)
           | Inr secPolicy0 \<Rightarrow>
               (let cfg1 = (if Policy cfg = ''auto'' then cfg else cfg\<lparr>Policy := []\<rparr>) in
                case resolveMode (Mode cfg1) of
                  Inl f \<Rightarrow> (Inl f, cfg1)
                | Inr secMode0 \<Rightarrow>
                    (let cfg2 = (if ToLower (Mode cfg1) = ''auto'' then cfg1
                                 else cfg1\<lparr>Mode := []\<rparr>);
                         (secMode, secPolicy) = noneOverride secMode0 secPolicy0;
                         serverEndpoint =
                           selectEndpoint (Mode cfg2) (Policy cfg2) secMode secPolicy endpoints;
                         cfg3 = cfg2\<lparr>Policy := savePolicy\<rparr> in
                     case serverEndpoint of
                       None \<Rightarrow> (Inl NoSuitableEndpoint, cfg3)
                     | Some ep \<Rightarrow>
                         (let validation =
                                validateEndpointConfig endpoints (SecurityPolicyURI ep)
                                  (SecurityMode ep) authMode in
                          if err \<noteq> None then (Inl NoSuitableEndpoint, cfg3)
                          else (Inr [SecurityFromEndpoint ep authMode], cfg3))))))"

section \<open>Metrics configuration (package config)\<close>

text \<open>
  A Go map is listed in the order in which \<open>range\<close> visits it; that order is the
  runtime's choice and the program reads each label map once.
\<close>

type_synonym labelMap = "(string \<times> string) list"

record Metric =
  Name :: string
  Help :: string
  NodeID :: string
  Labels :: labelMap
  Type :: string

record MetricsConfig =
  Metrics :: "Metric list"

record Config =
  serverConfig :: ServerConfig
  metricsConfig :: MetricsConfig

datatype configError =
    MissingMetrics
  | MissingName nat
  | MissingHelp nat
  | MissingNodeValue nat
  | MissingType nat
  | ReadFileError string
  | UnmarshalError string

text \<open>The loop of \<open>validate\<close>, with its index \<open>i\<close>.\<close>

fun validateFrom :: "nat \<Rightarrow> Metric list \<Rightarrow> configError option" where
  "validateFrom i [] = None"
| "validateFrom i (m # ms) =
     (if Name m = [] then Some (MissingName i)
      else if Help m = [] then Some (MissingHelp i)
      else if NodeID m = [] then Some (MissingNodeValue i)
      else if Type m = [] then Some (MissingType i)
      else validateFrom (Suc i) ms)"

definition validate :: "MetricsConfig \<Rightarrow> configError option" where
  "validate mm =
     (if length (Metrics mm) = 0 then Some MissingMetrics
      else validateFrom 0 (Metrics mm))"

text \<open>
  The file system maps a path to what \<open>ioutil.ReadFile\<close> returns for it: an
  error text or the content.  \<open>yaml.Unmarshal\<close> decodes into the existing
  \<open>MetricsConfig\<close> and is the argument \<open>unmarshal\<close>.  \<open>LoadMetricsConfig\<close>
  works on the configuration through a pointer, so the configuration it leaves
  behind is returned next to the error.
\<close>

type_synonym fileSystem = "string \<Rightarrow> string + string"

definition LoadMetricsConfig ::
  "fileSystem \<Rightarrow> (string \<Rightarrow> MetricsConfig \<Rightarrow> string option \<times> MetricsConfig) \<Rightarrow>
   Config \<Rightarrow> string \<Rightarrow> configError option \<times> Config" where
  "LoadMetricsConfig fs unmarshal c filename =
     (case fs filename of
        Inl err \<Rightarrow>
          if Contains err ''no such file or directory'' then (None, c)
          else (Some (ReadFileError err), c)
      | Inr content \<Rightarrow>
          (case unmarshal content (metricsConfig c) of
             (Some err, mc) \<Rightarrow> (Some (UnmarshalError err), c\<lparr>metricsConfig := mc\<rparr>)
           | (None, mc) \<Rightarrow> (validate mc, c\<lparr>metricsConfig := mc\<rparr>)))"

definition NewConfig ::
  "fileSystem \<Rightarrow> (string \<Rightarrow> MetricsConfig \<Rightarrow> string option \<times> MetricsConfig) \<Rightarrow>
   string \<Rightarrow> string \<Rightarrow> string \<Rightarrow> (string \<Rightarrow> string \<Rightarrow> string \<Rightarrow>
   (string \<Rightarrow> string \<Rightarrow> string \<Rightarrow> configError + Config))" where
  "NewConfig fs unmarshal endpoint certPath keyPath secMode secPolicy authMode username
     password configPath =
     (let c = \<lparr>serverConfig =
                 \<lparr>Endpoint = endpoint, CertPath = certPath, KeyPath = keyPath,
                  SecPolicy = secPolicy, SecMode = secMode, AuthMode = authMode,
                  Username = username, Password = password\<rparr>,
               metricsConfig = \<lparr>Metrics = []\<rparr>\<rparr> in
      case LoadMetricsConfig fs unmarshal c configPath of
        (Some err, c') \<Rightarrow> Inl err
      | (None, c') \<Rightarrow> Inr c')"

section \<open>The collector (package collector)\<close>

subsection \<open>Data of the Prometheus and OPC UA libraries\<close>

text \<open>
  A descriptor is recorded as the arguments of \<open>prometheus.NewDesc\<close>, a sample as
  the arguments of \<open>prometheus.NewInvalidMetric\<close> or \<open>prometheus.NewConstMetric\<close>.
  \<open>float64\<close> values are only carried from the read result and the clock to the
  samples, never computed with; they are reals here.
\<close>

record Desc =
  fqName :: string
  descHelp :: string
  variableLabels :: "string list"

definition NewDesc :: "string \<Rightarrow> string \<Rightarrow> string list \<Rightarrow> Desc" where
  "NewDesc nm hlp keys = \<lparr>fqName = nm, descHelp = hlp, variableLabels = keys\<rparr>"

datatype ValueType = CounterValue | GaugeValue | UntypedValue

datatype uaNodeID = NumericNodeID nat nat | StringNodeID nat string

record ReadValueID =
  rvNodeID :: uaNodeID

datatype timestamps = TimestampsToReturnSource | TimestampsToReturnServer
  | TimestampsToReturnBoth | TimestampsToReturnNeither








subsection \<open>The collector and its cache\<close>

record metricProperties =
  desc :: Desc
  valueTyp :: ValueType
  labels :: labelMap
  labelsKeys :: "string list"
  labelsValues :: "string list"

record metric =
  name :: string
  properties :: metricProperties

record opcuaMetric =
  embedded :: metric
  nodeID :: string
  nodeReadValueID :: ReadValueID

record Collector =
  collectorServerConfig :: ServerConfig
  opcuaClient :: opcuaClient
  opcuaMetricsCache :: "opcuaMetric list"
  statsMetricsCache :: "metric list"
  errorDesc :: Desc

definition getMetricValueType :: "string \<Rightarrow> ValueType" where
  "getMetricValueType metricType =
     (if metricType = ''counter'' then CounterValue
      else if metricType = ''gauge'' then GaugeValue
      else if metricType = ''Float'' \<or> metricType = ''Double'' then GaugeValue
      else UntypedValue)"

definition newMetric :: "string \<Rightarrow> string \<Rightarrow> ValueType \<Rightarrow> labelMap \<Rightarrow> metric" where
  "newMetric nm hlp t lbls =
     (let keys = map fst lbls; vals = map snd lbls in
      \<lparr>name = nm,
       properties = \<lparr>desc = NewDesc nm hlp keys, valueTyp = t, labels = lbls,
                     labelsKeys = keys, labelsValues = vals\<rparr>\<rparr>)"

text \<open>
  The loop of \<open>loadMetricsCache\<close>: \<open>mm\<close> is the slice built so far, and the
  first identifier that \<open>ua.ParseNodeID\<close> (the argument \<open>parseNodeID\<close>) refuses
  ends the loop with the error.
\<close>

fun loadLoop ::
  "(string \<Rightarrow> string + uaNodeID) \<Rightarrow> Metric list \<Rightarrow> opcuaMetric list \<Rightarrow> string + opcuaMetric list" where
  "loadLoop parseNodeID [] mm = Inr mm"
| "loadLoop parseNodeID (m # ms) mm =
     (case parseNodeID (NodeID m) of
        Inl err \<Rightarrow> Inl (''invalid node id: '' @ err)
      | Inr uaNode \<Rightarrow>
          loadLoop parseNodeID ms
            (mm @ [\<lparr>embedded = newMetric (Name m) (Help m) (getMetricValueType (Type m)) (Labels m),
                    nodeID = NodeID m,
                    nodeReadValueID = \<lparr>rvNodeID = uaNode\<rparr>\<rparr>]))"

text \<open>The method has a pointer receiver: it returns its error and the collector as it leaves it.\<close>

definition loadMetricsCache ::
  "(string \<Rightarrow> string + uaNodeID) \<Rightarrow> Collector \<Rightarrow> MetricsConfig \<Rightarrow> string option \<times> Collector" where
  "loadMetricsCache parseNodeID c cfg =
     (case loadLoop parseNodeID (Metrics cfg) [] of
        Inl err \<Rightarrow> (Some err, c)
      | Inr mm \<Rightarrow> (None, c\<lparr>opcuaMetricsCache := mm\<rparr>))"

text \<open>\<open>ReloadMetrics\<close> has no result: the error of \<open>loadMetricsCache\<close> is dropped.\<close>

definition ReloadMetrics ::
  "(string \<Rightarrow> string + uaNodeID) \<Rightarrow> Collector \<Rightarrow> MetricsConfig \<Rightarrow> Collector" where
  "ReloadMetrics parseNodeID c cfg = snd (loadMetricsCache parseNodeID c cfg)"

text \<open>The four statistics metrics that \<open>NewCollector\<close> appends.\<close>

definition statsMetrics :: "metric list" where
  "statsMetrics =
     [newMetric ''opcua_scrape_walk_duration_seconds''
        ''Time OPCUA walk/bulkwalk took.'' GaugeValue [],
      newMetric ''opcua_scrape_resp_returned''
        ''RESPs returned from walk.'' GaugeValue [],
      newMetric ''opcua_scrape_duration_seconds''
        ''Total OPCUA time scrape took (walk and processing).'' GaugeValue [],
      newMetric ''opcua_client_read_duration_seconds''
        ''Time OPCUA to reconnect took.'' GaugeValue []]"

text \<open>
  \<open>NewCollector\<close>: \<open>connect\<close> is what \<open>opcuaClient.Connect\<close> returns; a failure
  is fatal.  \<open>errorDesc\<close> is \<open>nil\<close> until the last assignment; the empty
  descriptor stands for it.
\<close>

definition NewCollector ::
  "(string \<Rightarrow> UserTokenType) \<Rightarrow> (string \<Rightarrow> string \<Rightarrow> string + tlsCertificate) \<Rightarrow>
   (string \<Rightarrow> string + uaNodeID) \<Rightarrow> (opcuaClient \<Rightarrow> string option) \<Rightarrow>
   string + EndpointDescription list \<Rightarrow> Config \<Rightarrow> failure + Collector" where
  "NewCollector uttOf loadX509KeyPair parseNodeID connect discovered cfg =
     (case NewClientFromServerConfig uttOf loadX509KeyPair (serverConfig cfg) discovered of
        Inl f \<Rightarrow> Inl f
      | Inr cl \<Rightarrow>
          (case connect cl of
             Some err \<Rightarrow> Inl (ConnectionError err)
           | None \<Rightarrow>
               (let c0 = \<lparr>collectorServerConfig = serverConfig cfg, opcuaClient = cl,
                          opcuaMetricsCache = [], statsMetricsCache = [],
                          errorDesc = NewDesc [] [] []\<rparr>;
                    c1 = ReloadMetrics parseNodeID c0 (metricsConfig cfg);
                    c2 = c1\<lparr>statsMetricsCache := statsMetricsCache c1 @ statsMetrics\<rparr>
                in Inr (c2\<lparr>errorDesc := NewDesc ''opcua_error'' ''error scraping target'' []\<rparr>))))"

subsection \<open>Describe and Collect\<close>

definition Describe :: "Collector \<Rightarrow> Desc list" where
  "Describe c =
     map (\<lambda>m. desc (properties (embedded m))) (opcuaMetricsCache c) @
     map (\<lambda>m. desc (properties m)) (statsMetricsCache c)"










subsection \<open>The earlier Collect\<close>




section \<open>Reloading (package main)\<close>

text \<open>
  \<open>SafeConfig\<close> holds a pointer to the configuration; \<open>GetConfig\<close> returns that
  pointer and \<open>LoadMetricsConfig\<close> writes through it, so what \<open>reloadConfig\<close>
  leaves in \<open>sc.C\<close> is the configuration \<open>LoadMetricsConfig\<close> leaves, with or
  without an error.
\<close>

definition reloadConfig ::
  "fileSystem \<Rightarrow> (string \<Rightarrow> MetricsConfig \<Rightarrow> string option \<times> MetricsConfig) \<Rightarrow>
   Config \<Rightarrow> string \<Rightarrow> configError option \<times> Config" where
  "reloadConfig fs unmarshal sc configPath =
     (case LoadMetricsConfig fs unmarshal sc configPath of
        (Some err, c) \<Rightarrow> (Some err, c)
      | (None, c) \<Rightarrow> (None, c))"

text \<open>
  The calls into the operating system and the libraries that the reload handler
  makes: writing the file, decoding YAML, parsing a node identifier, and the
  registry's \<open>Register\<close> and \<open>Unregister\<close>.
\<close>

record 'r externals =
  ioWriteFile :: "fileSystem \<Rightarrow> string \<Rightarrow> string \<Rightarrow> fileSystem"
  yamlUnmarshal :: "string \<Rightarrow> MetricsConfig \<Rightarrow> string option \<times> MetricsConfig"
  uaParseNodeID :: "string \<Rightarrow> string + uaNodeID"
  registryRegister :: "'r \<Rightarrow> Collector \<Rightarrow> string option \<times> 'r"
  registryUnregister :: "'r \<Rightarrow> Collector \<Rightarrow> 'r"

record 'r world =
  files :: fileSystem
  safeConfig :: Config
  metricsCollector :: Collector
  registry :: 'r

record request =
  Method :: string
  Body :: "string + string"

datatype reply = HttpError string nat | ReloadFailed configError nat

text \<open>
  \<open>sendReloadChannel\<close> hands the request to the reload goroutine and waits for
  its answer: the call of \<open>sc.reloadConfig\<close>.  After an error the handler writes
  the reply and goes on.
\<close>

definition reloadConfigHandler ::
  "'r externals \<Rightarrow> string \<Rightarrow> bool \<Rightarrow> 'r world \<Rightarrow> request \<Rightarrow> reply list \<times> 'r world" where
  "reloadConfigHandler ext configPath updateFromBody w r =
     (if Method r = ''POST'' then
        (case (if updateFromBody then
                 (case Body r of
                    Inl err \<Rightarrow> Inl [HttpError ''can't read body'' 400]
                  | Inr body \<Rightarrow>
                      Inr (if length body \<noteq> 0
                           then w\<lparr>files := ioWriteFile ext (files w) configPath body\<rparr>
                           else w))
               else Inr w) of
           Inl replies \<Rightarrow> (replies, w)
         | Inr w1 \<Rightarrow>
             (let (err, sc) = reloadConfig (files w1) (yamlUnmarshal ext) (safeConfig w1) configPath;
                  replies = (case err of
                               Some e \<Rightarrow> [ReloadFailed e 500]
                             | None \<Rightarrow> []);
                  w2 = w1\<lparr>safeConfig := sc\<rparr>;
                  w3 = w2\<lparr>registry := registryUnregister ext (registry w2) (metricsCollector w2)\<rparr>;
                  w4 = w3\<lparr>metricsCollector :=
                            ReloadMetrics (uaParseNodeID ext) (metricsCollector w3)
                              (metricsConfig (safeConfig w3))\<rparr>;
                  w5 = w4\<lparr>registry :=
                            snd (registryRegister ext (registry w4) (metricsCollector w4))\<rparr>
              in (replies, w5)))
      else ([HttpError ''POST method expected'' 400], w))"

section \<open>Notions used to state the properties\<close>

subsection \<open>The selection scan\<close>

text \<open>
  The filter that the chosen loop applies to an endpoint, and the comparison by
  which a passing endpoint replaces the incumbent, read off the four loop
  conditions.
\<close>

definition activeFilter ::
  "string \<Rightarrow> string \<Rightarrow> MessageSecurityMode \<Rightarrow> string \<Rightarrow> EndpointDescription \<Rightarrow> bool" where
  "activeFilter secMode secPolicy mode policy e =
     (if secMode = ''auto'' \<and> secPolicy = ''auto'' then True
      else if secMode \<noteq> ''auto'' \<and> secPolicy = ''auto'' then SecurityMode e = mode
      else if secMode = ''auto'' \<and> secPolicy \<noteq> ''auto'' then SecurityPolicyURI e = policy
      else SecurityPolicyURI e = policy \<and> SecurityMode e = mode)"

definition supersedes ::
  "string \<Rightarrow> string \<Rightarrow> EndpointDescription \<Rightarrow> EndpointDescription \<Rightarrow> bool" where
  "supersedes secMode secPolicy e b =
     (if secMode = ''auto'' \<and> secPolicy = ''auto''
      then SecurityMode e \<ge> SecurityMode b \<and> SecurityLevel e \<ge> SecurityLevel b
      else SecurityLevel e \<ge> SecurityLevel b)"

text \<open>
  \<open>chosenAt P R xs ep ys\<close>: in the list \<open>xs @ ep # ys\<close> the element \<open>ep\<close> passes
  the filter \<open>P\<close>, no later passing element would replace it, and every earlier
  passing element that would replace it is replaced by it in turn.
\<close>

definition chosenAt ::
  "('a \<Rightarrow> bool) \<Rightarrow> ('a \<Rightarrow> 'a \<Rightarrow> bool) \<Rightarrow> 'a list \<Rightarrow> 'a \<Rightarrow> 'a list \<Rightarrow> bool" where
  "chosenAt P R xs ep ys =
     (P ep \<and> (\<forall>e\<in>set ys. P e \<longrightarrow> \<not> R e ep) \<and> (\<forall>e\<in>set xs. P e \<longrightarrow> R e ep \<longrightarrow> R ep e))"

text \<open>
  The selection as the specification words it: the key \<open>(securityMode,
  securityLevel)\<close> is compared as a pair, the highest key wins, and an incumbent
  with an equal key is kept.
\<close>

definition keyGreater :: "EndpointDescription \<Rightarrow> EndpointDescription \<Rightarrow> bool" where
  "keyGreater e b =
     (SecurityMode b < SecurityMode e \<or>
      (SecurityMode e = SecurityMode b \<and> SecurityLevel b < SecurityLevel e))"

definition specCond ::
  "(EndpointDescription \<Rightarrow> bool) \<Rightarrow> EndpointDescription \<Rightarrow> EndpointDescription option \<Rightarrow> bool" where
  "specCond P e ep = (P e \<and> (case ep of None \<Rightarrow> True | Some b \<Rightarrow> keyGreater e b))"

definition specSelect ::
  "string \<Rightarrow> string \<Rightarrow> MessageSecurityMode \<Rightarrow> string \<Rightarrow>
   EndpointDescription list \<Rightarrow> EndpointDescription option" where
  "specSelect secMode secPolicy mode policy ee =
     scan (specCond (activeFilter secMode secPolicy mode policy)) ee None"

subsection \<open>Samples\<close>




text \<open>The cache entry that \<open>loadMetricsCache\<close> builds from a configured metric.\<close>

definition cacheEntry :: "Metric \<Rightarrow> uaNodeID \<Rightarrow> opcuaMetric" where
  "cacheEntry m uaNode =
     \<lparr>embedded = newMetric (Name m) (Help m) (getMetricValueType (Type m)) (Labels m),
      nodeID = NodeID m,
      nodeReadValueID = \<lparr>rvNodeID = uaNode\<rparr>\<rparr>"

section \<open>Example environments\<close>

text \<open>
  Instances of the library calls, for the concrete runs below.
  \<open>exampleTokenType\<close> is \<open>ua.UserTokenTypeFromString\<close> on the auth modes of the
  README (Anonymous 0, UserName 1, Certificate 2).
\<close>

definition exampleTokenType :: "string \<Rightarrow> UserTokenType" where
  "exampleTokenType s =
     (if s = ''UserName'' then 1 else if s = ''Certificate'' then 2 else 0)"

definition noKeyPair :: "string \<Rightarrow> string \<Rightarrow> string + tlsCertificate" where
  "noKeyPair certPath keyPath = Inl ''open: no such file or directory''"

text \<open>
  An instance of \<open>ua.ParseNodeID\<close> on the identifiers used below: the two
  numeric identifiers of the README parse, \<open>i=-1\<close> does not (a numeric
  identifier is an unsigned number), and a word without a prefix, such as
  \<open>bogus\<close>, is a string identifier in namespace 0.
\<close>

definition exampleParseNodeID :: "string \<Rightarrow> string + uaNodeID" where
  "exampleParseNodeID s =
     (if s = ''ns=2;i=10853'' then Inr (NumericNodeID 2 10853)
      else if s = ''ns=2;i=10852'' then Inr (NumericNodeID 2 10852)
      else if s = ''i=-1'' then Inl ''invalid numeric id''
      else Inr (StringNodeID 0 s))"

text \<open>A file system without files, and one that holds a metrics file.\<close>

definition noFiles :: fileSystem where
  "noFiles path = Inl (''open '' @ path @ '': no such file or directory'')"

definition oneFile :: "string \<Rightarrow> string \<Rightarrow> fileSystem" where
  "oneFile filename content path =
     (if path = filename then Inr content
      else Inl (''open '' @ path @ '': no such file or directory''))"

definition exampleWriteFile :: "fileSystem \<Rightarrow> string \<Rightarrow> string \<Rightarrow> fileSystem" where
  "exampleWriteFile fs filename content = fs(filename := Inr content)"

text \<open>
  A YAML decoder that knows three documents: a metric with the node identifier
  of the README, the same metric with the identifier \<open>i=-1\<close>, which does not
  parse, and an empty metric list.
\<close>

definition goodYaml :: string where
  "goodYaml = ''metrics: [{name: Temperature, help: machine temperature, nodeid: ns=2;i=10853, type: gauge}]''"

definition badNodeYaml :: string where
  "badNodeYaml = ''metrics: [{name: Temperature, help: machine temperature, nodeid: i=-1, type: gauge}]''"

definition temperature :: "string \<Rightarrow> Metric" where
  "temperature node =
     \<lparr>Name = ''Temperature'', Help = ''machine temperature'', NodeID = node,
      Labels = [], Type = ''gauge''\<rparr>"

definition emptyYaml :: string where
  "emptyYaml = ''metrics: []''"

definition exampleUnmarshal :: "string \<Rightarrow> MetricsConfig \<Rightarrow> string option \<times> MetricsConfig" where
  "exampleUnmarshal content mc =
     (if content = goodYaml then (None, \<lparr>Metrics = [temperature ''ns=2;i=10853'']\<rparr>)
      else if content = badNodeYaml then (None, \<lparr>Metrics = [temperature ''i=-1'']\<rparr>)
      else if content = emptyYaml then (None, \<lparr>Metrics = []\<rparr>)
      else (Some ''yaml: unmarshal errors'', mc))"

text \<open>A registry that holds the collectors registered with it, and never refuses.\<close>

definition exampleRegister :: "Collector list \<Rightarrow> Collector \<Rightarrow> string option \<times> Collector list" where
  "exampleRegister reg c = (None, reg @ [c])"

definition exampleUnregister :: "Collector list \<Rightarrow> Collector \<Rightarrow> Collector list" where
  "exampleUnregister reg c = remove1 c reg"

definition exampleExternals :: "Collector list externals" where
  "exampleExternals =
     \<lparr>ioWriteFile = exampleWriteFile, yamlUnmarshal = exampleUnmarshal,
      uaParseNodeID = exampleParseNodeID, registryRegister = exampleRegister,
      registryUnregister = exampleUnregister\<rparr>"






text \<open>A collector as \<open>NewCollector\<close> leaves it, with the cache \<open>cache\<close>.\<close>

definition exampleCollector :: "opcuaMetric list \<Rightarrow> Collector" where
  "exampleCollector cache =
     \<lparr>collectorServerConfig =
        \<lparr>Endpoint = ''opc.tcp://plc:4840'', CertPath = [], KeyPath = [], SecPolicy = ''None'',
         SecMode = ''auto'', AuthMode = ''Anonymous'', Username = [], Password = []\<rparr>,
      opcuaClient = NewClient ''opc.tcp://plc:4840'' connectionOptions,
      opcuaMetricsCache = cache,
      statsMetricsCache = statsMetrics,
      errorDesc = NewDesc ''opcua_error'' ''error scraping target'' []\<rparr>"



text \<open>An endpoint that accepts anonymous sessions.\<close>

definition exampleEndpoint ::
  "string \<Rightarrow> MessageSecurityMode \<Rightarrow> string \<Rightarrow> 8 word \<Rightarrow> EndpointDescription" where
  "exampleEndpoint url mode policy level =
     \<lparr>EndpointURL = url, SecurityMode = mode, SecurityPolicyURI = policy,
      UserIdentityTokens = [\<lparr>PolicyID = ''anonymous'', TokenType = 0\<rparr>],
      SecurityLevel = level\<rparr>"

text \<open>An endpoint without security that accepts user-name sessions only.\<close>

definition userNameEndpoint :: EndpointDescription where
  "userNameEndpoint =
     \<lparr>EndpointURL = ''opc.tcp://plc:4840'', SecurityMode = 1,
      SecurityPolicyURI = ''http://opcfoundation.org/UA/SecurityPolicy#None'',
      UserIdentityTokens = [\<lparr>PolicyID = ''username'', TokenType = 1\<rparr>],
      SecurityLevel = 0\<rparr>"

definition exampleServerConfig :: "string \<Rightarrow> string \<Rightarrow> string \<Rightarrow> string \<Rightarrow> ServerConfig" where
  "exampleServerConfig secPolicy secMode authMode username =
     \<lparr>Endpoint = ''opc.tcp://plc:4840'', CertPath = [], KeyPath = [], SecPolicy = secPolicy,
      SecMode = secMode, AuthMode = authMode, Username = username, Password = []\<rparr>"

text \<open>
  A configuration with the metrics \<open>ms\<close>, and the state of the program around
  the reload handler: the files, the configuration, the collector with its cache,
  and the collector registered with the registry.
\<close>

definition exampleConfig :: "Metric list \<Rightarrow> Config" where
  "exampleConfig ms =
     \<lparr>serverConfig = exampleServerConfig ''None'' ''auto'' ''Anonymous'' [],
      metricsConfig = \<lparr>Metrics = ms\<rparr>\<rparr>"

definition exampleWorld :: "fileSystem \<Rightarrow> Metric list \<Rightarrow> opcuaMetric list \<Rightarrow> Collector list world" where
  "exampleWorld fs ms cache =
     \<lparr>files = fs, safeConfig = exampleConfig ms, metricsCollector = exampleCollector cache,
      registry = [exampleCollector cache]\<rparr>"

definition postRequest :: request where
  "postRequest = \<lparr>Method = ''POST'', Body = Inr []\<rparr>"


section \<open>Endpoint negotiation: properties\<close>

subsection \<open>The scan\<close>

lemma scan_Some_is_Some: "\<exists>r. scan cond ee (Some b) = Some r"
  by (induction ee arbitrary: b) auto

lemma chosenAt_Nil: "P ep \<Longrightarrow> \<forall>e\<in>set ys. P e \<longrightarrow> \<not> R e ep \<Longrightarrow> chosenAt P R [] ep ys"
  by (simp add: chosenAt_def)

lemma chosenAt_Cons:
  "chosenAt P R (e # xs) ep ys \<longleftrightarrow> chosenAt P R xs ep ys \<and> (P e \<longrightarrow> R e ep \<longrightarrow> R ep e)"
  by (auto simp add: chosenAt_def)

text \<open>
  The loop with an incumbent \<open>b\<close>: either \<open>b\<close> survives, and then no passing
  element of the list would replace it, or the survivor is an element of the list
  that replaced (transitively) \<open>b\<close>.
\<close>

lemma scan_from_Some:
  assumes tr: "\<And>x y z. R x y \<Longrightarrow> R y z \<Longrightarrow> R x z"
      and cd: "\<And>e b. cond e (Some b) = (P e \<and> R e b)"
  shows "scan cond ee (Some b) = Some ep \<Longrightarrow>
         (ep = b \<and> (\<forall>e\<in>set ee. P e \<longrightarrow> \<not> R e b)) \<or>
         (\<exists>xs ys. ee = xs @ ep # ys \<and> R ep b \<and> chosenAt P R xs ep ys)"
proof (induction ee arbitrary: b)
  case Nil
  then show ?case by simp
next
  case (Cons e ee)
  show ?case
  proof (cases "P e \<and> R e b")
    case True
    with Cons.prems have run: "scan cond ee (Some e) = Some ep" by (simp add: cd)
    from Cons.IH [OF run] show ?thesis
    proof
      assume a: "ep = e \<and> (\<forall>x\<in>set ee. P x \<longrightarrow> \<not> R x e)"
      with True have "e # ee = [] @ ep # ee \<and> R ep b \<and> chosenAt P R [] ep ee"
        by (simp add: chosenAt_Nil)
      then show ?thesis by blast
    next
      assume "\<exists>xs ys. ee = xs @ ep # ys \<and> R ep e \<and> chosenAt P R xs ep ys"
      then obtain xs ys where d: "ee = xs @ ep # ys" "R ep e" "chosenAt P R xs ep ys"
        by blast
      have "R ep b" using tr [OF d(2)] True by blast
      with d have "e # ee = (e # xs) @ ep # ys \<and> R ep b \<and> chosenAt P R (e # xs) ep ys"
        by (simp add: chosenAt_Cons)
      then show ?thesis by blast
    qed
  next
    case False
    with Cons.prems have run: "scan cond ee (Some b) = Some ep" by (simp add: cd)
    from Cons.IH [OF run] show ?thesis
    proof
      assume a: "ep = b \<and> (\<forall>x\<in>set ee. P x \<longrightarrow> \<not> R x b)"
      with False show ?thesis by auto
    next
      assume "\<exists>xs ys. ee = xs @ ep # ys \<and> R ep b \<and> chosenAt P R xs ep ys"
      then obtain xs ys where d: "ee = xs @ ep # ys" "R ep b" "chosenAt P R xs ep ys"
        by blast
      have "P e \<Longrightarrow> R e ep \<Longrightarrow> R ep e" using tr [OF _ d(2)] False by blast
      with d have "e # ee = (e # xs) @ ep # ys \<and> R ep b \<and> chosenAt P R (e # xs) ep ys"
        by (simp add: chosenAt_Cons)
      then show ?thesis by blast
    qed
  qed
qed

lemma scan_from_None:
  assumes tr: "\<And>x y z. R x y \<Longrightarrow> R y z \<Longrightarrow> R x z"
      and cd: "\<And>e b. cond e (Some b) = (P e \<and> R e b)"
      and cn: "\<And>e. cond e None = P e"
  shows "scan cond ee None = Some ep \<Longrightarrow>
         \<exists>xs ys. ee = xs @ ep # ys \<and> chosenAt P R xs ep ys"
proof (induction ee)
  case Nil
  then show ?case by simp
next
  case (Cons e ee)
  show ?case
  proof (cases "P e")
    case True
    with Cons.prems have run: "scan cond ee (Some e) = Some ep" by (simp add: cn)
    from scan_from_Some [of R cond P, OF tr cd run] show ?thesis
    proof
      assume a: "ep = e \<and> (\<forall>x\<in>set ee. P x \<longrightarrow> \<not> R x e)"
      with True have "e # ee = [] @ ep # ee \<and> chosenAt P R [] ep ee"
        by (simp add: chosenAt_Nil)
      then show ?thesis by blast
    next
      assume "\<exists>xs ys. ee = xs @ ep # ys \<and> R ep e \<and> chosenAt P R xs ep ys"
      then obtain xs ys where d: "ee = xs @ ep # ys" "R ep e" "chosenAt P R xs ep ys"
        by blast
      then have "e # ee = (e # xs) @ ep # ys \<and> chosenAt P R (e # xs) ep ys"
        by (simp add: chosenAt_Cons)
      then show ?thesis by blast
    qed
  next
    case False
    with Cons.prems have run: "scan cond ee None = Some ep" by (simp add: cn)
    from Cons.IH [OF run] obtain xs ys where d: "ee = xs @ ep # ys" "chosenAt P R xs ep ys"
      by blast
    with False have "e # ee = (e # xs) @ ep # ys \<and> chosenAt P R (e # xs) ep ys"
      by (simp add: chosenAt_Cons)
    then show ?thesis by blast
  qed
qed

lemma scan_None_iff:
  assumes cn: "\<And>e. cond e None = P e"
  shows "scan cond ee None = None \<longleftrightarrow> (\<forall>e\<in>set ee. \<not> P e)"
proof (induction ee)
  case Nil
  show ?case by simp
next
  case (Cons e ee)
  show ?case
  proof (cases "P e")
    case True
    obtain r where "scan cond ee (Some e) = Some r" using scan_Some_is_Some by blast
    with True show ?thesis by (simp add: cn)
  next
    case False
    with Cons.IH show ?thesis by (simp add: cn)
  qed
qed

text \<open>
  One more element at the end of the list is one more turn of the loop: it
  replaces the survivor of the list before it exactly when the loop condition
  holds of the two.
\<close>

lemma scan_snoc:
  "scan cond (ee @ [e]) ep = (if cond e (scan cond ee ep) then Some e else scan cond ee ep)"
  by (induction ee arbitrary: ep) auto

text \<open>The survivor stands in the replacement relation to the first passing element.\<close>

lemma scan_first_passing:
  assumes tr: "\<And>x y z. R x y \<Longrightarrow> R y z \<Longrightarrow> R x z"
      and rf: "\<And>x. R x x"
      and cd: "\<And>e b. cond e (Some b) = (P e \<and> R e b)"
      and cn: "\<And>e. cond e None = P e"
  shows "scan cond ee None = Some ep \<Longrightarrow> filter P ee = f # fs \<Longrightarrow> R ep f"
proof (induction ee)
  case Nil
  then show ?case by simp
next
  case (Cons e ee)
  show ?case
  proof (cases "P e")
    case True
    with Cons.prems have run: "scan cond ee (Some e) = Some ep" and fe: "f = e"
      by (simp_all add: cn)
    from scan_from_Some [of R cond P, OF tr cd run] show ?thesis
    proof
      assume "ep = e \<and> (\<forall>x\<in>set ee. P x \<longrightarrow> \<not> R x e)"
      with fe rf show ?thesis by simp
    next
      assume "\<exists>xs ys. ee = xs @ ep # ys \<and> R ep e \<and> chosenAt P R xs ep ys"
      with fe show ?thesis by blast
    qed
  next
    case False
    with Cons.prems have "scan cond ee None = Some ep" "filter P ee = f # fs"
      by (simp_all add: cn)
    then show ?thesis by (rule Cons.IH)
  qed
qed

lemma supersedes_refl: "supersedes sm sp x x"
  by (simp add: supersedes_def)

lemma supersedes_trans:
  "supersedes sm sp x y \<Longrightarrow> supersedes sm sp y z \<Longrightarrow> supersedes sm sp x z"
  by (auto simp add: supersedes_def split: if_splits)

text \<open>Each of the four loops filters with \<open>activeFilter\<close> and replaces with \<open>supersedes\<close>.\<close>

lemma selectEndpoint_scan:
  "\<exists>cond. (\<forall>ee. selectEndpoint sm sp mode policy ee = scan cond ee None) \<and>
     (\<forall>e. cond e None = activeFilter sm sp mode policy e) \<and>
     (\<forall>e b. cond e (Some b) = (activeFilter sm sp mode policy e \<and> supersedes sm sp e b))"
proof -
  consider (best) "sm = ''auto''" "sp = ''auto''"
    | (mode) "sm \<noteq> ''auto''" "sp = ''auto''"
    | (policy) "sm = ''auto''" "sp \<noteq> ''auto''"
    | (both) "sm \<noteq> ''auto''" "sp \<noteq> ''auto''"
    by blast
  then show ?thesis
  proof cases
    case best
    then have "(\<forall>ee. selectEndpoint sm sp mode policy ee = scan condBest ee None) \<and>
     (\<forall>e. condBest e None = activeFilter sm sp mode policy e) \<and>
     (\<forall>e b. condBest e (Some b) = (activeFilter sm sp mode policy e \<and> supersedes sm sp e b))"
      by (simp add: selectEndpoint_def condBest_def activeFilter_def supersedes_def)
    then show ?thesis by blast
  next
    case mode
    then have "(\<forall>ee. selectEndpoint sm sp mode policy ee = scan (condMode mode) ee None) \<and>
     (\<forall>e. condMode mode e None = activeFilter sm sp mode policy e) \<and>
     (\<forall>e b. condMode mode e (Some b) = (activeFilter sm sp mode policy e \<and> supersedes sm sp e b))"
      by (simp add: selectEndpoint_def condMode_def activeFilter_def supersedes_def)
    then show ?thesis by blast
  next
    case policy
    then have "(\<forall>ee. selectEndpoint sm sp mode policy ee = scan (condPolicy policy) ee None) \<and>
     (\<forall>e. condPolicy policy e None = activeFilter sm sp mode policy e) \<and>
     (\<forall>e b. condPolicy policy e (Some b) = (activeFilter sm sp mode policy e \<and> supersedes sm sp e b))"
      by (simp add: selectEndpoint_def condPolicy_def activeFilter_def supersedes_def)
    then show ?thesis by blast
  next
    case both
    then have "(\<forall>ee. selectEndpoint sm sp mode policy ee = scan (condBoth policy mode) ee None) \<and>
     (\<forall>e. condBoth policy mode e None = activeFilter sm sp mode policy e) \<and>
     (\<forall>e b. condBoth policy mode e (Some b) = (activeFilter sm sp mode policy e \<and> supersedes sm sp e b))"
      by (simp add: selectEndpoint_def condBoth_def activeFilter_def supersedes_def)
    then show ?thesis by blast
  qed
qed

lemma selectEndpoint_None_iff:
  "selectEndpoint sm sp mode policy ee = None \<longleftrightarrow>
     (\<forall>e\<in>set ee. \<not> activeFilter sm sp mode policy e)"
proof -
  obtain cond where c: "selectEndpoint sm sp mode policy ee = scan cond ee None"
    "\<And>e. cond e None = activeFilter sm sp mode policy e"
    using selectEndpoint_scan by blast
  show ?thesis unfolding c(1) by (rule scan_None_iff) (rule c(2))
qed

lemma selectEndpoint_Some:
  assumes "selectEndpoint sm sp mode policy ee = Some ep"
  shows "\<exists>xs ys. ee = xs @ ep # ys \<and>
           chosenAt (activeFilter sm sp mode policy) (supersedes sm sp) xs ep ys"
proof -
  obtain cond where c: "selectEndpoint sm sp mode policy ee = scan cond ee None"
    "\<And>e. cond e None = activeFilter sm sp mode policy e"
    "\<And>e b. cond e (Some b) = (activeFilter sm sp mode policy e \<and> supersedes sm sp e b)"
    using selectEndpoint_scan by blast
  from assms have run: "scan cond ee None = Some ep" by (simp add: c(1))
  show ?thesis
    by (rule scan_from_None [where R = "supersedes sm sp", OF _ _ _ run])
       (auto simp add: c(2) c(3) intro: supersedes_trans)
qed

lemma selectEndpoint_Nil: "selectEndpoint sm sp mode policy [] = None"
  by (simp add: selectEndpoint_def)

lemma selectEndpoint_snoc:
  "selectEndpoint sm sp mode policy (ee @ [e]) =
     (if activeFilter sm sp mode policy e \<and>
         (case selectEndpoint sm sp mode policy ee of
            None \<Rightarrow> True
          | Some b \<Rightarrow> supersedes sm sp e b)
      then Some e else selectEndpoint sm sp mode policy ee)"
proof -
  from selectEndpoint_scan [of sm sp mode policy]
  obtain cond where c0: "(\<forall>ee. selectEndpoint sm sp mode policy ee = scan cond ee None) \<and>
     (\<forall>e. cond e None = activeFilter sm sp mode policy e) \<and>
     (\<forall>e b. cond e (Some b) = (activeFilter sm sp mode policy e \<and> supersedes sm sp e b))" ..
  from c0 have c: "\<And>l. selectEndpoint sm sp mode policy l = scan cond l None"
    "\<And>e. cond e None = activeFilter sm sp mode policy e"
    "\<And>e b. cond e (Some b) = (activeFilter sm sp mode policy e \<and> supersedes sm sp e b)"
    by simp_all
  show ?thesis
    by (cases "scan cond ee None") (simp_all add: c scan_snoc)
qed

lemma selectEndpoint_first_passing:
  assumes "selectEndpoint sm sp mode policy ee = Some ep"
      and "filter (activeFilter sm sp mode policy) ee = f # fs"
  shows "supersedes sm sp ep f"
proof -
  from selectEndpoint_scan [of sm sp mode policy]
  obtain cond where c0: "(\<forall>ee. selectEndpoint sm sp mode policy ee = scan cond ee None) \<and>
     (\<forall>e. cond e None = activeFilter sm sp mode policy e) \<and>
     (\<forall>e b. cond e (Some b) = (activeFilter sm sp mode policy e \<and> supersedes sm sp e b))" ..
  from c0 have c: "\<And>l. selectEndpoint sm sp mode policy l = scan cond l None"
    "\<And>e. cond e None = activeFilter sm sp mode policy e"
    "\<And>e b. cond e (Some b) = (activeFilter sm sp mode policy e \<and> supersedes sm sp e b)"
    by simp_all
  from assms(1) have run: "scan cond ee None = Some ep" by (simp add: c(1))
  show ?thesis
    by (rule scan_first_passing [where R = "supersedes sm sp" and cond = cond
          and P = "activeFilter sm sp mode policy", OF _ _ _ _ run assms(2)])
       (auto simp add: c(2) c(3) supersedes_refl intro: supersedes_trans)
qed

subsection \<open>What the scan selects\<close>

text \<open>
  Claim C1, as the code has it.  For every endpoint list and every constraint
  combination the selection is the loop it is written as: on the empty list there
  is no survivor, and one more endpoint \<open>e\<close> at the end of the list replaces the
  survivor \<open>b\<close> of the list before it exactly when
  \<^item> neither mode nor policy is constrained and \<open>e\<close> is greater or equal to \<open>b\<close>
    in \<open>securityMode\<close> and in \<open>securityLevel\<close>, both at once;
  \<^item> the mode, the policy or both are constrained, \<open>e\<close> passes the active
    filter and is greater or equal to \<open>b\<close> in \<open>securityLevel\<close>
  (or there is no survivor yet and \<open>e\<close> passes).  The test is a greater-or-equal
  test, so an endpoint with the key of the incumbent replaces it.  Hence the scan
  returns no endpoint exactly when no endpoint of the list passes the filter, and
  otherwise an endpoint \<open>ep\<close> of the list that passes the filter, such that
  \<^item> no passing endpoint after \<open>ep\<close> in discovery order meets the replacement
    test against \<open>ep\<close>, and every passing endpoint before \<open>ep\<close> that meets it is
    met by \<open>ep\<close> in turn: of several candidates with equal keys the one seen last
    is selected;
  \<^item> when the mode, the policy or both are constrained, \<open>ep\<close> has the highest
    \<open>securityLevel\<close> among the passing endpoints;
  \<^item> when neither is constrained, \<open>ep\<close> is greater or equal to the first
    endpoint of the list in \<open>securityMode\<close> and in \<open>securityLevel\<close>, and no
    endpoint of the list is at least as high as \<open>ep\<close> in both and different in
    one.
\<close>

theorem selectEndpoint_choice:
  "selectEndpoint sm sp mode policy [] = None \<and>
   (sm = ''auto'' \<and> sp = ''auto'' \<longrightarrow>
      (\<forall>e. selectEndpoint sm sp mode policy (ee @ [e]) =
         (case selectEndpoint sm sp mode policy ee of
            None \<Rightarrow> Some e
          | Some b \<Rightarrow>
              if SecurityMode b \<le> SecurityMode e \<and> SecurityLevel b \<le> SecurityLevel e
              then Some e else Some b))) \<and>
   (\<not> (sm = ''auto'' \<and> sp = ''auto'') \<longrightarrow>
      (\<forall>e. selectEndpoint sm sp mode policy (ee @ [e]) =
         (if activeFilter sm sp mode policy e \<and>
             (case selectEndpoint sm sp mode policy ee of
                None \<Rightarrow> True
              | Some b \<Rightarrow> SecurityLevel b \<le> SecurityLevel e)
          then Some e else selectEndpoint sm sp mode policy ee))) \<and>
   (selectEndpoint sm sp mode policy ee = None \<longleftrightarrow>
      (\<forall>e\<in>set ee. \<not> activeFilter sm sp mode policy e)) \<and>
   (\<forall>ep. selectEndpoint sm sp mode policy ee = Some ep \<longrightarrow>
      (\<exists>xs ys. ee = xs @ ep # ys \<and> activeFilter sm sp mode policy ep \<and>
         (\<forall>e\<in>set ys. activeFilter sm sp mode policy e \<longrightarrow> \<not> supersedes sm sp e ep) \<and>
         (\<forall>e\<in>set xs. activeFilter sm sp mode policy e \<longrightarrow>
             supersedes sm sp e ep \<longrightarrow> supersedes sm sp ep e)) \<and>
      (\<not> (sm = ''auto'' \<and> sp = ''auto'') \<longrightarrow>
         (\<forall>e\<in>set ee. activeFilter sm sp mode policy e \<longrightarrow>
            SecurityLevel e \<le> SecurityLevel ep)) \<and>
      (sm = ''auto'' \<and> sp = ''auto'' \<longrightarrow>
         (\<forall>f fs. ee = f # fs \<longrightarrow>
            SecurityMode f \<le> SecurityMode ep \<and> SecurityLevel f \<le> SecurityLevel ep) \<and>
         (\<forall>e\<in>set ee. SecurityMode ep \<le> SecurityMode e \<and> SecurityLevel ep \<le> SecurityLevel e \<longrightarrow>
            SecurityMode e = SecurityMode ep \<and> SecurityLevel e = SecurityLevel ep)))"
proof (intro conjI allI impI)
  show "selectEndpoint sm sp mode policy [] = None" by (rule selectEndpoint_Nil)
next
  fix e
  assume auto: "sm = ''auto'' \<and> sp = ''auto''"
  show "selectEndpoint sm sp mode policy (ee @ [e]) =
         (case selectEndpoint sm sp mode policy ee of
            None \<Rightarrow> Some e
          | Some b \<Rightarrow>
              if SecurityMode b \<le> SecurityMode e \<and> SecurityLevel b \<le> SecurityLevel e
              then Some e else Some b)"
  proof -
    have "selectEndpoint sm sp mode policy (ee @ [e]) =
            (if activeFilter sm sp mode policy e \<and>
                (case selectEndpoint sm sp mode policy ee of
                   None \<Rightarrow> True
                 | Some b \<Rightarrow> supersedes sm sp e b)
             then Some e else selectEndpoint sm sp mode policy ee)"
      by (rule selectEndpoint_snoc)
    also have "\<dots> = (case selectEndpoint sm sp mode policy ee of
            None \<Rightarrow> Some e
          | Some b \<Rightarrow>
              if SecurityMode b \<le> SecurityMode e \<and> SecurityLevel b \<le> SecurityLevel e
              then Some e else Some b)"
      using auto
      by (cases "selectEndpoint sm sp mode policy ee")
         (simp_all add: activeFilter_def supersedes_def)
    finally show ?thesis .
  qed
next
  fix e
  assume constrained: "\<not> (sm = ''auto'' \<and> sp = ''auto'')"
  show "selectEndpoint sm sp mode policy (ee @ [e]) =
         (if activeFilter sm sp mode policy e \<and>
             (case selectEndpoint sm sp mode policy ee of
                None \<Rightarrow> True
              | Some b \<Rightarrow> SecurityLevel b \<le> SecurityLevel e)
          then Some e else selectEndpoint sm sp mode policy ee)"
  proof -
    have "selectEndpoint sm sp mode policy (ee @ [e]) =
            (if activeFilter sm sp mode policy e \<and>
                (case selectEndpoint sm sp mode policy ee of
                   None \<Rightarrow> True
                 | Some b \<Rightarrow> supersedes sm sp e b)
             then Some e else selectEndpoint sm sp mode policy ee)"
      by (rule selectEndpoint_snoc)
    also have "\<dots> = (if activeFilter sm sp mode policy e \<and>
             (case selectEndpoint sm sp mode policy ee of
                None \<Rightarrow> True
              | Some b \<Rightarrow> SecurityLevel b \<le> SecurityLevel e)
          then Some e else selectEndpoint sm sp mode policy ee)"
      using constrained
      by (cases "selectEndpoint sm sp mode policy ee") (auto simp add: supersedes_def)
    finally show ?thesis .
  qed
next
  show "selectEndpoint sm sp mode policy ee = None \<longleftrightarrow>
      (\<forall>e\<in>set ee. \<not> activeFilter sm sp mode policy e)"
    by (rule selectEndpoint_None_iff)
next
  fix ep
  assume sel: "selectEndpoint sm sp mode policy ee = Some ep"
  from selectEndpoint_Some [OF sel] obtain xs ys where d: "ee = xs @ ep # ys"
    "activeFilter sm sp mode policy ep"
    "\<forall>e\<in>set ys. activeFilter sm sp mode policy e \<longrightarrow> \<not> supersedes sm sp e ep"
    "\<forall>e\<in>set xs. activeFilter sm sp mode policy e \<longrightarrow>
             supersedes sm sp e ep \<longrightarrow> supersedes sm sp ep e"
    unfolding chosenAt_def by blast
  then show "\<exists>xs ys. ee = xs @ ep # ys \<and> activeFilter sm sp mode policy ep \<and>
         (\<forall>e\<in>set ys. activeFilter sm sp mode policy e \<longrightarrow> \<not> supersedes sm sp e ep) \<and>
         (\<forall>e\<in>set xs. activeFilter sm sp mode policy e \<longrightarrow>
             supersedes sm sp e ep \<longrightarrow> supersedes sm sp ep e)"
    by blast
  {
    assume constrained: "\<not> (sm = ''auto'' \<and> sp = ''auto'')"
    show "\<forall>e\<in>set ee. activeFilter sm sp mode policy e \<longrightarrow>
            SecurityLevel e \<le> SecurityLevel ep"
    proof (intro ballI impI)
      fix e assume e: "e \<in> set ee" "activeFilter sm sp mode policy e"
      from e(1) d(1) consider "e \<in> set xs" | "e = ep" | "e \<in> set ys" by auto
      then show "SecurityLevel e \<le> SecurityLevel ep"
      proof cases
        case 1
        with d(4) e(2) constrained show ?thesis
          by (auto simp add: supersedes_def split: if_splits)
      next
        case 2
        then show ?thesis by simp
      next
        case 3
        with d(3) e(2) constrained show ?thesis
          by (auto simp add: supersedes_def split: if_splits)
      qed
    qed
  }
  {
    fix f fs
    assume auto: "sm = ''auto'' \<and> sp = ''auto''" and hd: "ee = f # fs"
    from auto hd have "filter (activeFilter sm sp mode policy) ee
                        = f # filter (activeFilter sm sp mode policy) fs"
      by (simp add: activeFilter_def)
    from selectEndpoint_first_passing [OF sel this] auto
    show "SecurityMode f \<le> SecurityMode ep" and "SecurityLevel f \<le> SecurityLevel ep"
      by (simp_all add: supersedes_def)
  }
  {
    assume auto: "sm = ''auto'' \<and> sp = ''auto''"
    show "\<forall>e\<in>set ee. SecurityMode ep \<le> SecurityMode e \<and> SecurityLevel ep \<le> SecurityLevel e \<longrightarrow>
            SecurityMode e = SecurityMode ep \<and> SecurityLevel e = SecurityLevel ep"
    proof (intro ballI impI)
      fix e assume e: "e \<in> set ee"
        "SecurityMode ep \<le> SecurityMode e \<and> SecurityLevel ep \<le> SecurityLevel e"
      from auto have f: "activeFilter sm sp mode policy e" by (simp add: activeFilter_def)
      from auto e(2) have s: "supersedes sm sp e ep" by (simp add: supersedes_def)
      from e(1) d(1) consider "e \<in> set xs" | "e = ep" | "e \<in> set ys" by auto
      then show "SecurityMode e = SecurityMode ep \<and> SecurityLevel e = SecurityLevel ep"
      proof cases
        case 1
        with d(4) f s have "supersedes sm sp ep e" by blast
        with auto e(2) show ?thesis by (auto simp add: supersedes_def)
      next
        case 2
        then show ?thesis by simp
      next
        case 3
        with d(3) f s show ?thesis by blast
      qed
    qed
  }
qed

text \<open>
  The example of the specification: with the mode fixed to Sign, the list
  \<open>[(Sign, 1), (Sign, 3), (None, 9)]\<close> gives the endpoint of level 3, by the
  last turn of the loop, and the level of the first endpoint is below it.  Two
  endpoints with equal keys and no constraint: the second.  No endpoint of the
  fixed mode: none.
\<close>

theorem selectEndpoint_choice_witness:
  "selectEndpoint ''Sign'' ''auto'' MessageSecurityModeSign []
     ([(exampleEndpoint ''opc.tcp://a'' 2 ''http://opcfoundation.org/UA/SecurityPolicy#Basic256Sha256'' 1), (exampleEndpoint ''opc.tcp://b'' 2 ''http://opcfoundation.org/UA/SecurityPolicy#Basic256Sha256'' 3)] @ [(exampleEndpoint ''opc.tcp://c'' 1 ''http://opcfoundation.org/UA/SecurityPolicy#Basic256Sha256'' 9)])
     = Some (exampleEndpoint ''opc.tcp://b'' 2 ''http://opcfoundation.org/UA/SecurityPolicy#Basic256Sha256'' 3) \<and>
   activeFilter ''Sign'' ''auto'' MessageSecurityModeSign [] (exampleEndpoint ''opc.tcp://a'' 2 ''http://opcfoundation.org/UA/SecurityPolicy#Basic256Sha256'' 1) \<and>
   SecurityLevel (exampleEndpoint ''opc.tcp://a'' 2 ''http://opcfoundation.org/UA/SecurityPolicy#Basic256Sha256'' 1) \<le> SecurityLevel (exampleEndpoint ''opc.tcp://b'' 2 ''http://opcfoundation.org/UA/SecurityPolicy#Basic256Sha256'' 3) \<and>
   selectEndpoint ''auto'' ''auto'' MessageSecurityModeInvalid []
     ([(exampleEndpoint ''opc.tcp://a'' 2 ''http://opcfoundation.org/UA/SecurityPolicy#Basic256Sha256'' 3)] @ [(exampleEndpoint ''opc.tcp://b'' 2 ''http://opcfoundation.org/UA/SecurityPolicy#Basic256Sha256'' 3)])
     = Some (exampleEndpoint ''opc.tcp://b'' 2 ''http://opcfoundation.org/UA/SecurityPolicy#Basic256Sha256'' 3) \<and>
   SecurityMode (exampleEndpoint ''opc.tcp://a'' 2 ''http://opcfoundation.org/UA/SecurityPolicy#Basic256Sha256'' 3) \<le> SecurityMode (exampleEndpoint ''opc.tcp://b'' 2 ''http://opcfoundation.org/UA/SecurityPolicy#Basic256Sha256'' 3) \<and>
   SecurityLevel (exampleEndpoint ''opc.tcp://a'' 2 ''http://opcfoundation.org/UA/SecurityPolicy#Basic256Sha256'' 3) \<le> SecurityLevel (exampleEndpoint ''opc.tcp://b'' 2 ''http://opcfoundation.org/UA/SecurityPolicy#Basic256Sha256'' 3) \<and>
   SecurityMode (exampleEndpoint ''opc.tcp://a'' 2 ''http://opcfoundation.org/UA/SecurityPolicy#Basic256Sha256'' 3) = SecurityMode (exampleEndpoint ''opc.tcp://b'' 2 ''http://opcfoundation.org/UA/SecurityPolicy#Basic256Sha256'' 3) \<and>
   SecurityLevel (exampleEndpoint ''opc.tcp://a'' 2 ''http://opcfoundation.org/UA/SecurityPolicy#Basic256Sha256'' 3) = SecurityLevel (exampleEndpoint ''opc.tcp://b'' 2 ''http://opcfoundation.org/UA/SecurityPolicy#Basic256Sha256'' 3) \<and>
   selectEndpoint ''Sign'' ''auto'' MessageSecurityModeSign [] [(exampleEndpoint ''opc.tcp://c'' 1 ''http://opcfoundation.org/UA/SecurityPolicy#Basic256Sha256'' 9)] = None"
proof -
  let ?a1 = "exampleEndpoint ''opc.tcp://a'' 2 ''http://opcfoundation.org/UA/SecurityPolicy#Basic256Sha256'' 1"
  let ?a3 = "exampleEndpoint ''opc.tcp://a'' 2 ''http://opcfoundation.org/UA/SecurityPolicy#Basic256Sha256'' 3"
  let ?b3 = "exampleEndpoint ''opc.tcp://b'' 2 ''http://opcfoundation.org/UA/SecurityPolicy#Basic256Sha256'' 3"
  let ?c9 = "exampleEndpoint ''opc.tcp://c'' 1 ''http://opcfoundation.org/UA/SecurityPolicy#Basic256Sha256'' 9"
  have two: "selectEndpoint ''Sign'' ''auto'' MessageSecurityModeSign [] [?a1, ?b3] = Some ?b3"
    by (simp add: selectEndpoint_def condMode_def exampleEndpoint_def
        MessageSecurityModeSign_def word_le_nat_alt)
  have nc: "\<not> (''Sign'' = ''auto'' \<and> ''auto'' = ''auto'')" by simp
  have au: "''auto'' = ''auto'' \<and> ''auto'' = ''auto''" by simp
  have nflt: "\<not> activeFilter ''Sign'' ''auto'' MessageSecurityModeSign [] ?c9"
    by (simp add: activeFilter_def exampleEndpoint_def MessageSecurityModeSign_def)
  have flt: "activeFilter ''Sign'' ''auto'' MessageSecurityModeSign [] ?a1"
    by (simp add: activeFilter_def exampleEndpoint_def MessageSecurityModeSign_def)
  note t1 = selectEndpoint_choice [of "''Sign''" "''auto''" MessageSecurityModeSign "[]"
               "[?a1, ?b3]"]
  have "selectEndpoint ''Sign'' ''auto'' MessageSecurityModeSign [] ([?a1, ?b3] @ [?c9]) =
         (if activeFilter ''Sign'' ''auto'' MessageSecurityModeSign [] ?c9 \<and>
             (case selectEndpoint ''Sign'' ''auto'' MessageSecurityModeSign [] [?a1, ?b3] of
                None \<Rightarrow> True
              | Some b \<Rightarrow> SecurityLevel b \<le> SecurityLevel ?c9)
          then Some ?c9
          else selectEndpoint ''Sign'' ''auto'' MessageSecurityModeSign [] [?a1, ?b3])"
    by (rule t1 [THEN conjunct2, THEN conjunct2, THEN conjunct1, THEN mp, OF nc, THEN spec])
  with two nflt
  have sel: "selectEndpoint ''Sign'' ''auto'' MessageSecurityModeSign [] ([?a1, ?b3] @ [?c9])
               = Some ?b3"
    by simp
  note t2 = selectEndpoint_choice [of "''Sign''" "''auto''" MessageSecurityModeSign "[]"
               "[?a1, ?b3] @ [?c9]"]
  note t2s = t2 [THEN conjunct2, THEN conjunct2, THEN conjunct2, THEN conjunct2, THEN spec,
                 THEN mp, OF sel]
  have "\<forall>e\<in>set ([?a1, ?b3] @ [?c9]).
          activeFilter ''Sign'' ''auto'' MessageSecurityModeSign [] e \<longrightarrow>
            SecurityLevel e \<le> SecurityLevel ?b3"
    by (rule t2s [THEN conjunct2, THEN conjunct1, THEN mp, OF nc])
  with flt have lvl: "SecurityLevel ?a1 \<le> SecurityLevel ?b3"
    by simp
  have one: "selectEndpoint ''auto'' ''auto'' MessageSecurityModeInvalid [] [?a3] = Some ?a3"
    by (simp add: selectEndpoint_def condBest_def)
  have ge0: "SecurityMode ?a3 \<le> SecurityMode ?b3 \<and> SecurityLevel ?a3 \<le> SecurityLevel ?b3"
    by (simp add: exampleEndpoint_def)
  note t3 = selectEndpoint_choice [of "''auto''" "''auto''" MessageSecurityModeInvalid "[]"
               "[?a3]"]
  have "selectEndpoint ''auto'' ''auto'' MessageSecurityModeInvalid [] ([?a3] @ [?b3]) =
         (case selectEndpoint ''auto'' ''auto'' MessageSecurityModeInvalid [] [?a3] of
            None \<Rightarrow> Some ?b3
          | Some b \<Rightarrow>
              if SecurityMode b \<le> SecurityMode ?b3 \<and> SecurityLevel b \<le> SecurityLevel ?b3
              then Some ?b3 else Some b)"
    by (rule t3 [THEN conjunct2, THEN conjunct1, THEN mp, OF au, THEN spec])
  with one ge0
  have tie: "selectEndpoint ''auto'' ''auto'' MessageSecurityModeInvalid [] ([?a3] @ [?b3])
               = Some ?b3"
    by simp
  note t4 = selectEndpoint_choice [of "''auto''" "''auto''" MessageSecurityModeInvalid "[]"
               "[?a3] @ [?b3]"]
  note t4s = t4 [THEN conjunct2, THEN conjunct2, THEN conjunct2, THEN conjunct2, THEN spec,
                 THEN mp, OF tie, THEN conjunct2, THEN conjunct2, THEN mp, OF au]
  have cons: "[?a3] @ [?b3] = ?a3 # [?b3]" by simp
  have mem: "?a3 \<in> set ([?a3] @ [?b3])" by simp
  have ge: "SecurityMode ?b3 \<le> SecurityMode ?a3 \<and> SecurityLevel ?b3 \<le> SecurityLevel ?a3"
    by (simp add: exampleEndpoint_def)
  have first: "SecurityMode ?a3 \<le> SecurityMode ?b3 \<and> SecurityLevel ?a3 \<le> SecurityLevel ?b3"
    by (rule t4s [THEN conjunct1, THEN spec, THEN spec, THEN mp, OF cons])
  have eq: "SecurityMode ?a3 = SecurityMode ?b3 \<and> SecurityLevel ?a3 = SecurityLevel ?b3"
    by (rule t4s [THEN conjunct2, THEN bspec, OF mem, THEN mp, OF ge])
  have nf: "\<forall>e\<in>set [?c9]. \<not> activeFilter ''Sign'' ''auto'' MessageSecurityModeSign [] e"
    using nflt by simp
  note t5 = selectEndpoint_choice [of "''Sign''" "''auto''" MessageSecurityModeSign "[]" "[?c9]"]
  have none: "selectEndpoint ''Sign'' ''auto'' MessageSecurityModeSign [] [?c9] = None"
    by (rule t5 [THEN conjunct2, THEN conjunct2, THEN conjunct2, THEN conjunct1, THEN iffD2,
          OF nf])
  from sel flt lvl tie first [THEN conjunct1] first [THEN conjunct2]
    eq [THEN conjunct1] eq [THEN conjunct2] none
  show ?thesis by (intro conjI)
qed

text \<open>
  Claim C1 as it is worded fails on the code in three ways; \<open>specSelect\<close> is the
  selection of the wording.  Two endpoints with the same key and no constraint:
  negotiation returns the second, the wording keeps the first.  No constraint,
  \<open>(Sign, 5)\<close> before \<open>(SignAndEncrypt, 1)\<close>: negotiation keeps the first, the
  pair order prefers the second.  Policy \<open>Basic256\<close> and mode \<open>auto\<close>,
  \<open>(SignAndEncrypt, 1)\<close> before \<open>(Sign, 5)\<close>: negotiation compares the levels
  only and returns the second.
\<close>

theorem selectEndpoint_counterexample:
  "findEndpoint exampleTokenType (exampleServerConfig ''auto'' ''auto'' ''Anonymous'' [])
      (Inr [(exampleEndpoint ''opc.tcp://a'' 2 ''http://opcfoundation.org/UA/SecurityPolicy#Basic256Sha256'' 3), (exampleEndpoint ''opc.tcp://b'' 2 ''http://opcfoundation.org/UA/SecurityPolicy#Basic256Sha256'' 3)]) = Inr (exampleEndpoint ''opc.tcp://b'' 2 ''http://opcfoundation.org/UA/SecurityPolicy#Basic256Sha256'' 3) \<and>
   selectEndpoint ''auto'' ''auto'' MessageSecurityModeInvalid [] [(exampleEndpoint ''opc.tcp://a'' 2 ''http://opcfoundation.org/UA/SecurityPolicy#Basic256Sha256'' 3), (exampleEndpoint ''opc.tcp://b'' 2 ''http://opcfoundation.org/UA/SecurityPolicy#Basic256Sha256'' 3)]
     = Some (exampleEndpoint ''opc.tcp://b'' 2 ''http://opcfoundation.org/UA/SecurityPolicy#Basic256Sha256'' 3) \<and>
   specSelect ''auto'' ''auto'' MessageSecurityModeInvalid [] [(exampleEndpoint ''opc.tcp://a'' 2 ''http://opcfoundation.org/UA/SecurityPolicy#Basic256Sha256'' 3), (exampleEndpoint ''opc.tcp://b'' 2 ''http://opcfoundation.org/UA/SecurityPolicy#Basic256Sha256'' 3)]
     = Some (exampleEndpoint ''opc.tcp://a'' 2 ''http://opcfoundation.org/UA/SecurityPolicy#Basic256Sha256'' 3) \<and>
   findEndpoint exampleTokenType (exampleServerConfig ''auto'' ''auto'' ''Anonymous'' [])
      (Inr [(exampleEndpoint ''opc.tcp://a'' 2 ''http://opcfoundation.org/UA/SecurityPolicy#Basic256Sha256'' 5), (exampleEndpoint ''opc.tcp://b'' 3 ''http://opcfoundation.org/UA/SecurityPolicy#Basic256'' 1)]) = Inr (exampleEndpoint ''opc.tcp://a'' 2 ''http://opcfoundation.org/UA/SecurityPolicy#Basic256Sha256'' 5) \<and>
   selectEndpoint ''auto'' ''auto'' MessageSecurityModeInvalid [] [(exampleEndpoint ''opc.tcp://a'' 2 ''http://opcfoundation.org/UA/SecurityPolicy#Basic256Sha256'' 5), (exampleEndpoint ''opc.tcp://b'' 3 ''http://opcfoundation.org/UA/SecurityPolicy#Basic256'' 1)]
     = Some (exampleEndpoint ''opc.tcp://a'' 2 ''http://opcfoundation.org/UA/SecurityPolicy#Basic256Sha256'' 5) \<and>
   specSelect ''auto'' ''auto'' MessageSecurityModeInvalid [] [(exampleEndpoint ''opc.tcp://a'' 2 ''http://opcfoundation.org/UA/SecurityPolicy#Basic256Sha256'' 5), (exampleEndpoint ''opc.tcp://b'' 3 ''http://opcfoundation.org/UA/SecurityPolicy#Basic256'' 1)]
     = Some (exampleEndpoint ''opc.tcp://b'' 3 ''http://opcfoundation.org/UA/SecurityPolicy#Basic256'' 1) \<and>
   findEndpoint exampleTokenType (exampleServerConfig ''Basic256'' ''auto'' ''Anonymous'' [])
      (Inr [(exampleEndpoint ''opc.tcp://a'' 3 ''http://opcfoundation.org/UA/SecurityPolicy#Basic256'' 1), (exampleEndpoint ''opc.tcp://b'' 2 ''http://opcfoundation.org/UA/SecurityPolicy#Basic256'' 5)]) = Inr (exampleEndpoint ''opc.tcp://b'' 2 ''http://opcfoundation.org/UA/SecurityPolicy#Basic256'' 5) \<and>
   selectEndpoint ''auto'' ''Basic256'' MessageSecurityModeInvalid
      ''http://opcfoundation.org/UA/SecurityPolicy#Basic256'' [(exampleEndpoint ''opc.tcp://a'' 3 ''http://opcfoundation.org/UA/SecurityPolicy#Basic256'' 1), (exampleEndpoint ''opc.tcp://b'' 2 ''http://opcfoundation.org/UA/SecurityPolicy#Basic256'' 5)]
     = Some (exampleEndpoint ''opc.tcp://b'' 2 ''http://opcfoundation.org/UA/SecurityPolicy#Basic256'' 5) \<and>
   specSelect ''auto'' ''Basic256'' MessageSecurityModeInvalid
      ''http://opcfoundation.org/UA/SecurityPolicy#Basic256'' [(exampleEndpoint ''opc.tcp://a'' 3 ''http://opcfoundation.org/UA/SecurityPolicy#Basic256'' 1), (exampleEndpoint ''opc.tcp://b'' 2 ''http://opcfoundation.org/UA/SecurityPolicy#Basic256'' 5)]
     = Some (exampleEndpoint ''opc.tcp://a'' 3 ''http://opcfoundation.org/UA/SecurityPolicy#Basic256'' 1)"
  by (simp add: findEndpoint_def resolveSecurity_def resolvePolicy_def resolveMode_def
      lowerChar_def noneOverride_def supportsToken_def exampleTokenType_def
      exampleServerConfig_def SecurityPolicyURIPrefix_def SecurityPolicyURINone_def
      MessageSecurityModeInvalid_def MessageSecurityModeNone_def
      selectEndpoint_def specSelect_def condBest_def condPolicy_def specCond_def
      keyGreater_def activeFilter_def exampleEndpoint_def word_le_nat_alt word_less_nat_alt)

subsection \<open>Security none is all or nothing\<close>

text \<open>
  Claim C2.  For every configuration whose policy and mode resolve: if the
  resolved mode is the none mode or the resolved policy is the none-policy URI,
  then the resolution ends with mode none and the none-policy URI, whatever the
  other value was, and the selection of \<open>findEndpoint\<close> runs with these two.
\<close>

theorem none_forces_both:
  assumes "resolvePolicy (SecPolicy c) = Inr policy"
      and "resolveMode (SecMode c) = Inr mode"
      and "mode = MessageSecurityModeNone \<or> policy = SecurityPolicyURINone"
  shows "resolveSecurity c = Inr (MessageSecurityModeNone, SecurityPolicyURINone) \<and>
         findEndpoint uttOf c (Inr ee) =
           (case selectEndpoint (SecMode c) (SecPolicy c) MessageSecurityModeNone
                   SecurityPolicyURINone ee of
              None \<Rightarrow> Inl NoSuitableEndpoint
            | Some ep \<Rightarrow>
                if supportsToken (uttOf (AuthMode c)) ep then Inr ep
                else Inl NoSuitableEndpoint)"
  using assms by (auto simp add: resolveSecurity_def noneOverride_def findEndpoint_def)


text \<open>Policy \<open>Basic256\<close> with mode \<open>None\<close>: the policy is overridden.\<close>

theorem none_forces_both_witness:
  "resolvePolicy (SecPolicy \<lparr>Endpoint = ''opc.tcp://plc:4840'', CertPath = [], KeyPath = [],
       SecPolicy = ''Basic256'', SecMode = ''None'', AuthMode = ''Anonymous'',
       Username = [], Password = []\<rparr>) = Inr ''http://opcfoundation.org/UA/SecurityPolicy#Basic256'' \<and>
   resolveMode (SecMode \<lparr>Endpoint = ''opc.tcp://plc:4840'', CertPath = [], KeyPath = [],
       SecPolicy = ''Basic256'', SecMode = ''None'', AuthMode = ''Anonymous'',
       Username = [], Password = []\<rparr>) = Inr MessageSecurityModeNone \<and>
   resolveSecurity \<lparr>Endpoint = ''opc.tcp://plc:4840'', CertPath = [], KeyPath = [],
       SecPolicy = ''Basic256'', SecMode = ''None'', AuthMode = ''Anonymous'',
       Username = [], Password = []\<rparr> = Inr (MessageSecurityModeNone, SecurityPolicyURINone)"
proof -
  have p: "resolvePolicy (SecPolicy \<lparr>Endpoint = ''opc.tcp://plc:4840'', CertPath = [], KeyPath = [],
       SecPolicy = ''Basic256'', SecMode = ''None'', AuthMode = ''Anonymous'',
       Username = [], Password = []\<rparr>) = Inr ''http://opcfoundation.org/UA/SecurityPolicy#Basic256''"
    by (simp add: resolvePolicy_def SecurityPolicyURIPrefix_def)
  have m: "resolveMode (SecMode \<lparr>Endpoint = ''opc.tcp://plc:4840'', CertPath = [], KeyPath = [],
       SecPolicy = ''Basic256'', SecMode = ''None'', AuthMode = ''Anonymous'',
       Username = [], Password = []\<rparr>) = Inr MessageSecurityModeNone"
    by (simp add: resolveMode_def lowerChar_def)
  from none_forces_both [OF p m] p m show ?thesis by simp
qed

text \<open>
  The earlier \<open>clientSecurityOptions\<close> has the same override: under the same
  condition on its flags, its selection runs with mode none and the none-policy
  URI.
\<close>

lemma clientSecurityOptions_none_forces_both:
  assumes "resolvePolicy (Policy cfg) = Inr policy"
      and "resolveMode (Mode cfg) = Inr mode"
      and "mode = MessageSecurityModeNone \<or> policy = SecurityPolicyURINone"
  shows "fst (clientSecurityOptions uttOf cfg (Inr ee)) =
           (case selectEndpoint (if ToLower (Mode cfg) = ''auto'' then Mode cfg else [])
                   (if Policy cfg = ''auto'' then ''auto'' else [])
                   MessageSecurityModeNone SecurityPolicyURINone ee of
              None \<Rightarrow> Inl NoSuitableEndpoint
            | Some ep \<Rightarrow> Inr [SecurityFromEndpoint ep (uttOf (Auth cfg))])"
  using assms
  by (auto simp add: clientSecurityOptions_def noneOverride_def Let_def split: option.splits)

subsection \<open>The token type of the selected endpoint\<close>

text \<open>
  \<open>findEndpoint\<close> looks for the requested token type in the selected endpoint
  only: when the selected endpoint does not advertise it, the result is
  \<open>NoSuitableEndpoint\<close>, whatever the other endpoints advertise.
\<close>

lemma findEndpoint_requires_token:
  assumes "resolveSecurity c = Inr (mode, policy)"
      and "selectEndpoint (SecMode c) (SecPolicy c) mode policy ee = Some ep"
      and "\<not> supportsToken (uttOf (AuthMode c)) ep"
  shows "findEndpoint uttOf c (Inr ee) = Inl NoSuitableEndpoint"
  using assms by (simp add: findEndpoint_def)

text \<open>
  Claim C3: when the selected candidate does not advertise the requested token
  type, negotiation fails with \<open>NoSuitableEndpoint\<close>.  \<open>findEndpoint\<close> does so
  (above).  The earlier \<open>clientSecurityOptions\<close> calls
  \<open>validateEndpointConfig\<close> and drops its result.  A run: the only endpoint
  accepts anonymous sessions, the configuration asks for \<open>UserName\<close>; the
  validation reports an error, \<open>clientSecurityOptions\<close> returns its options all
  the same, and \<open>findEndpoint\<close> fails on the same input.
\<close>

theorem clientSecurityOptions_skips_token_check:
  "fst (clientSecurityOptions exampleTokenType
          \<lparr>Policy = ''auto'', Mode = ''auto'', Auth = ''UserName''\<rparr>
          (Inr [exampleEndpoint ''opc.tcp://plc:4840'' 3 ''Basic256Sha256'' 3]))
     = Inr [SecurityFromEndpoint (exampleEndpoint ''opc.tcp://plc:4840'' 3 ''Basic256Sha256'' 3) 1] \<and>
   \<not> supportsToken 1 (exampleEndpoint ''opc.tcp://plc:4840'' 3 ''Basic256Sha256'' 3) \<and>
   validateEndpointConfig [exampleEndpoint ''opc.tcp://plc:4840'' 3 ''Basic256Sha256'' 3]
       ''Basic256Sha256'' 3 1 = Some ''server does not support an endpoint with security'' \<and>
   findEndpoint exampleTokenType (exampleServerConfig ''auto'' ''auto'' ''UserName'' ''operator'')
       (Inr [exampleEndpoint ''opc.tcp://plc:4840'' 3 ''Basic256Sha256'' 3])
     = Inl NoSuitableEndpoint"
  by (simp add: clientSecurityOptions_def findEndpoint_def resolveSecurity_def resolvePolicy_def
      resolveMode_def lowerChar_def noneOverride_def selectEndpoint_def condBest_def
      supportsToken_def validateEndpointConfig_def exampleTokenType_def exampleEndpoint_def
      exampleServerConfig_def MessageSecurityModeInvalid_def MessageSecurityModeNone_def
      SecurityPolicyURINone_def Let_def)

section \<open>Session building: properties\<close>

text \<open>
  Claim C9, as the code has it.  For every configuration with auth mode
  \<open>UserName\<close>, the user name and the password go to the library as configured,
  and whether session building fails does not depend on the user name: an empty
  one fails or succeeds as any other does.  With an auth mode other than
  \<open>Certificate\<close> and \<open>UserName\<close> the session is anonymous and no credential is
  read.
\<close>

theorem username_not_checked:
  "(AuthMode c = ''UserName'' \<longrightarrow>
      authenticationOptions uttOf c e crt =
        Inr [AuthUsername (Username c) (Password c), SecurityFromEndpoint e (uttOf (AuthMode c))] \<and>
      (isl (NewClientFromServerConfig uttOf loadX509KeyPair (c\<lparr>Username := u\<rparr>) discovered)
         \<longleftrightarrow> isl (NewClientFromServerConfig uttOf loadX509KeyPair c discovered))) \<and>
   (AuthMode c \<noteq> ''Certificate'' \<and> AuthMode c \<noteq> ''UserName'' \<longrightarrow>
      authenticationOptions uttOf c e crt =
        Inr [AuthAnonymous, SecurityFromEndpoint e (uttOf (AuthMode c))])"
proof (intro conjI impI)
  assume a: "AuthMode c = ''UserName''"
  then show "authenticationOptions uttOf c e crt =
        Inr [AuthUsername (Username c) (Password c), SecurityFromEndpoint e (uttOf (AuthMode c))]"
    by (simp add: authenticationOptions_def)
  have rs: "resolveSecurity (c\<lparr>Username := u\<rparr>) = resolveSecurity c"
    by (simp add: resolveSecurity_def cong: sum.case_cong)
  have fe: "findEndpoint uttOf (c\<lparr>Username := u\<rparr>) discovered = findEndpoint uttOf c discovered"
    by (simp add: findEndpoint_def rs split: sum.splits option.splits prod.splits)
  have lc: "loadCertificate loadX509KeyPair (c\<lparr>Username := u\<rparr>) = loadCertificate loadX509KeyPair c"
    by (simp add: loadCertificate_def)
  have so: "securityOptions (c\<lparr>Username := u\<rparr>) k = securityOptions c k" for k
    by (simp add: securityOptions_def)
  show "isl (NewClientFromServerConfig uttOf loadX509KeyPair (c\<lparr>Username := u\<rparr>) discovered)
         \<longleftrightarrow> isl (NewClientFromServerConfig uttOf loadX509KeyPair c discovered)"
    using a
    by (auto simp add: NewClientFromServerConfig_def fe lc so authenticationOptions_def
        split: sum.splits)
next
  assume "AuthMode c \<noteq> ''Certificate'' \<and> AuthMode c \<noteq> ''UserName''"
  then show "authenticationOptions uttOf c e crt =
        Inr [AuthAnonymous, SecurityFromEndpoint e (uttOf (AuthMode c))]"
    by (simp add: authenticationOptions_def)
qed

text \<open>
  Claim C9 as it is worded fails: auth mode \<open>UserName\<close> with an empty user name
  builds a client, with the empty name in its options.
\<close>

theorem username_not_checked_counterexample:
  "NewClientFromServerConfig exampleTokenType noKeyPair
     (exampleServerConfig ''None'' ''auto'' ''UserName'' []) (Inr [userNameEndpoint])
   = Inr (NewClient ''opc.tcp://plc:4840''
            [Lifetime 10, RequestTimeout 5, AutoReconnect True, AuthUsername [] [],
             SecurityFromEndpoint userNameEndpoint 1])"
  by (simp add: NewClientFromServerConfig_def findEndpoint_def resolveSecurity_def resolvePolicy_def
      resolveMode_def lowerChar_def noneOverride_def selectEndpoint_def condPolicy_def
      supportsToken_def exampleTokenType_def userNameEndpoint_def
      exampleServerConfig_def MessageSecurityModeInvalid_def MessageSecurityModeNone_def
      SecurityPolicyURINone_def SecurityPolicyURIPrefix_def loadCertificate_def
      authenticationOptions_def securityOptions_def connectionOptions_def)

text \<open>The two auth modes at a concrete configuration.\<close>

theorem username_not_checked_witness:
  "AuthMode (exampleServerConfig ''None'' ''auto'' ''UserName'' []) = ''UserName'' \<and>
   authenticationOptions exampleTokenType (exampleServerConfig ''None'' ''auto'' ''UserName'' [])
       userNameEndpoint \<lparr>tlsCertificate = [], tlsPrivateKey = None\<rparr>
     = Inr [AuthUsername [] [], SecurityFromEndpoint userNameEndpoint 1] \<and>
   AuthMode (exampleServerConfig ''None'' ''auto'' ''Anonymous'' []) \<noteq> ''Certificate'' \<and>
   AuthMode (exampleServerConfig ''None'' ''auto'' ''Anonymous'' []) \<noteq> ''UserName'' \<and>
   authenticationOptions exampleTokenType (exampleServerConfig ''None'' ''auto'' ''Anonymous'' [])
       userNameEndpoint \<lparr>tlsCertificate = [], tlsPrivateKey = None\<rparr>
     = Inr [AuthAnonymous, SecurityFromEndpoint userNameEndpoint 0]"
  using username_not_checked [of "exampleServerConfig ''None'' ''auto'' ''UserName'' []"
          exampleTokenType userNameEndpoint "\<lparr>tlsCertificate = [], tlsPrivateKey = None\<rparr>"]
        username_not_checked [of "exampleServerConfig ''None'' ''auto'' ''Anonymous'' []"
          exampleTokenType userNameEndpoint "\<lparr>tlsCertificate = [], tlsPrivateKey = None\<rparr>"]
  by (simp add: exampleServerConfig_def exampleTokenType_def)

section \<open>Validation and the cache build: properties\<close>

text \<open>
  The validation loop accepts exactly the lists without an empty field.  The cache
  loop appends one entry per metric, in order, when every node identifier parses,
  and ends with an error as soon as one does not; after an error the collector is
  the one before the call.
\<close>

lemma validateFrom_None_iff:
  "validateFrom i ms = None \<longleftrightarrow>
     (\<forall>m\<in>set ms. Name m \<noteq> [] \<and> Help m \<noteq> [] \<and> NodeID m \<noteq> [] \<and> Type m \<noteq> [])"
  by (induction ms arbitrary: i) auto

lemma loadLoop_all_parse:
  assumes "\<forall>m\<in>set ms. \<exists>n. parseNodeID (NodeID m) = Inr n"
  shows "\<exists>es. loadLoop parseNodeID ms mm = Inr (mm @ es) \<and> length es = length ms \<and>
           (\<forall>i<length ms. \<exists>n. parseNodeID (NodeID (ms ! i)) = Inr n \<and>
                              es ! i = cacheEntry (ms ! i) n)"
  using assms
proof (induction ms arbitrary: mm)
  case Nil
  then show ?case by simp
next
  case (Cons m ms)
  from Cons.prems obtain n where n: "parseNodeID (NodeID m) = Inr n" by auto
  from Cons.prems have rest: "\<forall>x\<in>set ms. \<exists>n. parseNodeID (NodeID x) = Inr n" by simp
  from Cons.IH [OF rest, of "mm @ [cacheEntry m n]"]
  obtain es where es: "loadLoop parseNodeID ms (mm @ [cacheEntry m n]) = Inr ((mm @ [cacheEntry m n]) @ es)"
    "length es = length ms"
    "\<forall>i<length ms. \<exists>k. parseNodeID (NodeID (ms ! i)) = Inr k \<and> es ! i = cacheEntry (ms ! i) k"
    by blast
  have run: "loadLoop parseNodeID (m # ms) mm = Inr (mm @ cacheEntry m n # es)"
    using n es(1) by (simp add: cacheEntry_def)
  have len: "length (cacheEntry m n # es) = length (m # ms)" using es(2) by simp
  have pos: "\<exists>k. parseNodeID (NodeID ((m # ms) ! i)) = Inr k \<and>
                 (cacheEntry m n # es) ! i = cacheEntry ((m # ms) ! i) k"
    if "i < length (m # ms)" for i
  proof (cases i)
    case 0
    with n show ?thesis by simp
  next
    case (Suc j)
    with that es(3) show ?thesis by simp
  qed
  from run len pos show ?case by blast
qed

lemma loadLoop_fails:
  assumes "\<exists>m\<in>set ms. \<exists>e. parseNodeID (NodeID m) = Inl e"
  shows "\<exists>err. loadLoop parseNodeID ms mm = Inl err"
  using assms
proof (induction ms arbitrary: mm)
  case Nil
  then show ?case by simp
next
  case (Cons m ms)
  show ?case
  proof (cases "parseNodeID (NodeID m)")
    case (Inl e)
    then show ?thesis by simp
  next
    case (Inr n)
    with Cons.prems have "\<exists>x\<in>set ms. \<exists>e. parseNodeID (NodeID x) = Inl e" by auto
    from Cons.IH [OF this] Inr show ?thesis by simp
  qed
qed

lemma loadMetricsCache_error_keeps_collector:
  "fst (loadMetricsCache parseNodeID c cfg) \<noteq> None \<Longrightarrow>
   snd (loadMetricsCache parseNodeID c cfg) = c"
  by (simp add: loadMetricsCache_def split: sum.splits)

lemma ReloadMetrics_bad_node_keeps_collector:
  assumes "\<exists>m\<in>set (Metrics cfg). \<exists>e. parseNodeID (NodeID m) = Inl e"
  shows "ReloadMetrics parseNodeID c cfg = c"
proof -
  from loadLoop_fails [OF assms] obtain err
    where "loadLoop parseNodeID (Metrics cfg) [] = Inl err" by blast
  then show ?thesis by (simp add: ReloadMetrics_def loadMetricsCache_def)
qed

text \<open>
  Claim C5.  Validation fails on an empty metric list, and fails when an entry has
  an empty name, help, node identifier or type.  When every node identifier of a
  configuration of \<open>N\<close> entries parses, the cache build succeeds and installs a
  cache of \<open>N\<close> entries in which entry \<open>i\<close> is built from metric \<open>i\<close> of the
  list and its parsed node identifier.
\<close>

theorem validate_and_cache_build:
  "(Metrics mm = [] \<longrightarrow> validate mm = Some MissingMetrics) \<and>
   ((\<exists>m\<in>set (Metrics mm). Name m = [] \<or> Help m = [] \<or> NodeID m = [] \<or> Type m = []) \<longrightarrow>
      validate mm \<noteq> None) \<and>
   ((\<forall>m\<in>set (Metrics mm). \<exists>n. parseNodeID (NodeID m) = Inr n) \<longrightarrow>
      fst (loadMetricsCache parseNodeID c mm) = None \<and>
      length (opcuaMetricsCache (snd (loadMetricsCache parseNodeID c mm))) = length (Metrics mm) \<and>
      (\<forall>i<length (Metrics mm).
         \<exists>n. parseNodeID (NodeID (Metrics mm ! i)) = Inr n \<and>
             opcuaMetricsCache (snd (loadMetricsCache parseNodeID c mm)) ! i
               = cacheEntry (Metrics mm ! i) n \<and>
             name (embedded (opcuaMetricsCache (snd (loadMetricsCache parseNodeID c mm)) ! i))
               = Name (Metrics mm ! i) \<and>
             nodeID (opcuaMetricsCache (snd (loadMetricsCache parseNodeID c mm)) ! i)
               = NodeID (Metrics mm ! i)))"
proof (intro conjI impI)
  assume "Metrics mm = []"
  then show "validate mm = Some MissingMetrics" by (simp add: validate_def)
next
  assume "\<exists>m\<in>set (Metrics mm). Name m = [] \<or> Help m = [] \<or> NodeID m = [] \<or> Type m = []"
  then have "validateFrom 0 (Metrics mm) \<noteq> None" by (auto simp add: validateFrom_None_iff)
  then show "validate mm \<noteq> None" by (simp add: validate_def)
next
  assume ok: "\<forall>m\<in>set (Metrics mm). \<exists>n. parseNodeID (NodeID m) = Inr n"
  from loadLoop_all_parse [OF ok, of "[]"] obtain es where
    es: "loadLoop parseNodeID (Metrics mm) [] = Inr es" "length es = length (Metrics mm)"
    "\<forall>i<length (Metrics mm). \<exists>n. parseNodeID (NodeID (Metrics mm ! i)) = Inr n \<and>
                              es ! i = cacheEntry (Metrics mm ! i) n"
    by auto
  have lm: "loadMetricsCache parseNodeID c mm = (None, c\<lparr>opcuaMetricsCache := es\<rparr>)"
    using es(1) by (simp add: loadMetricsCache_def)
  show "fst (loadMetricsCache parseNodeID c mm) = None" by (simp add: lm)
  show "length (opcuaMetricsCache (snd (loadMetricsCache parseNodeID c mm))) = length (Metrics mm)"
    by (simp add: lm es(2))
  show "\<forall>i<length (Metrics mm).
         \<exists>n. parseNodeID (NodeID (Metrics mm ! i)) = Inr n \<and>
             opcuaMetricsCache (snd (loadMetricsCache parseNodeID c mm)) ! i
               = cacheEntry (Metrics mm ! i) n \<and>
             name (embedded (opcuaMetricsCache (snd (loadMetricsCache parseNodeID c mm)) ! i))
               = Name (Metrics mm ! i) \<and>
             nodeID (opcuaMetricsCache (snd (loadMetricsCache parseNodeID c mm)) ! i)
               = NodeID (Metrics mm ! i)"
  proof (intro allI impI)
    fix i assume "i < length (Metrics mm)"
    with es(3) obtain n where n: "parseNodeID (NodeID (Metrics mm ! i)) = Inr n"
      "es ! i = cacheEntry (Metrics mm ! i) n" by blast
    then show "\<exists>n. parseNodeID (NodeID (Metrics mm ! i)) = Inr n \<and>
             opcuaMetricsCache (snd (loadMetricsCache parseNodeID c mm)) ! i
               = cacheEntry (Metrics mm ! i) n \<and>
             name (embedded (opcuaMetricsCache (snd (loadMetricsCache parseNodeID c mm)) ! i))
               = Name (Metrics mm ! i) \<and>
             nodeID (opcuaMetricsCache (snd (loadMetricsCache parseNodeID c mm)) ! i)
               = NodeID (Metrics mm ! i)"
      by (simp add: lm cacheEntry_def newMetric_def Let_def)
  qed
qed

text \<open>The three parts at concrete configurations.\<close>

theorem validate_and_cache_build_witness:
  "Metrics \<lparr>Metrics = []\<rparr> = [] \<and> validate \<lparr>Metrics = []\<rparr> = Some MissingMetrics \<and>
   Help (temperature ''ns=2;i=10853''\<lparr>Help := []\<rparr>) = [] \<and>
   validate \<lparr>Metrics = [temperature ''ns=2;i=10853'', temperature ''ns=2;i=10853''\<lparr>Help := []\<rparr>]\<rparr>
     \<noteq> None \<and>
   exampleParseNodeID (NodeID (temperature ''ns=2;i=10853'')) = Inr (NumericNodeID 2 10853) \<and>
   fst (loadMetricsCache exampleParseNodeID (exampleCollector [])
          \<lparr>Metrics = [temperature ''ns=2;i=10853'']\<rparr>) = None \<and>
   length (opcuaMetricsCache (snd (loadMetricsCache exampleParseNodeID (exampleCollector [])
          \<lparr>Metrics = [temperature ''ns=2;i=10853'']\<rparr>))) = 1"
  using validate_and_cache_build [of "\<lparr>Metrics = []\<rparr>" exampleParseNodeID "exampleCollector []"]
        validate_and_cache_build [of
          "\<lparr>Metrics = [temperature ''ns=2;i=10853'', temperature ''ns=2;i=10853''\<lparr>Help := []\<rparr>]\<rparr>"
          exampleParseNodeID "exampleCollector []"]
        validate_and_cache_build [of "\<lparr>Metrics = [temperature ''ns=2;i=10853'']\<rparr>"
          exampleParseNodeID "exampleCollector []"]
  by (simp add: temperature_def exampleParseNodeID_def)

section \<open>Reloading: properties\<close>

text \<open>
  \<open>ReloadMetrics\<close> assigns the cache and nothing else, and the reload handler
  changes the collector through \<open>ReloadMetrics\<close> only.
\<close>

lemma ReloadMetrics_frame:
  "ReloadMetrics parseNodeID c cfg =
     c\<lparr>opcuaMetricsCache := opcuaMetricsCache (ReloadMetrics parseNodeID c cfg)\<rparr>"
  by (simp add: ReloadMetrics_def loadMetricsCache_def split: sum.splits)

lemma handler_collector:
  "metricsCollector (snd (reloadConfigHandler ext configPath updateFromBody w r)) = metricsCollector w \<or>
   (\<exists>cfg. metricsCollector (snd (reloadConfigHandler ext configPath updateFromBody w r))
           = ReloadMetrics (uaParseNodeID ext) (metricsCollector w) cfg)"
  by (auto simp add: reloadConfigHandler_def Let_def split: sum.splits prod.splits if_splits)

text \<open>
  Claim C8.  A reload, successful or not, leaves every field of the collector
  other than the metric cache as it was; the \<open>opcuaClient\<close> field in particular
  is the same before and after, for \<open>ReloadMetrics\<close> and for the whole reload
  handler.
\<close>

theorem reload_keeps_session:
  "ReloadMetrics parseNodeID c cfg =
     c\<lparr>opcuaMetricsCache := opcuaMetricsCache (ReloadMetrics parseNodeID c cfg)\<rparr> \<and>
   opcuaClient (ReloadMetrics parseNodeID c cfg) = opcuaClient c \<and>
   metricsCollector (snd (reloadConfigHandler ext configPath updateFromBody w r)) =
     (metricsCollector w)\<lparr>opcuaMetricsCache :=
        opcuaMetricsCache (metricsCollector (snd (reloadConfigHandler ext configPath updateFromBody w r)))\<rparr> \<and>
   opcuaClient (metricsCollector (snd (reloadConfigHandler ext configPath updateFromBody w r)))
     = opcuaClient (metricsCollector w)"
proof -
  have f: "ReloadMetrics p k g = k\<lparr>opcuaMetricsCache := opcuaMetricsCache (ReloadMetrics p k g)\<rparr>"
    for p k g by (rule ReloadMetrics_frame)
  have cl: "opcuaClient (ReloadMetrics p k g) = opcuaClient k" for p k g
    by (subst f) simp
  from handler_collector [of ext configPath updateFromBody w r]
  have h: "metricsCollector (snd (reloadConfigHandler ext configPath updateFromBody w r)) =
     (metricsCollector w)\<lparr>opcuaMetricsCache :=
        opcuaMetricsCache (metricsCollector (snd (reloadConfigHandler ext configPath updateFromBody w r)))\<rparr>"
  proof
    assume "metricsCollector (snd (reloadConfigHandler ext configPath updateFromBody w r)) = metricsCollector w"
    then show ?thesis by simp
  next
    assume "\<exists>cfg. metricsCollector (snd (reloadConfigHandler ext configPath updateFromBody w r))
           = ReloadMetrics (uaParseNodeID ext) (metricsCollector w) cfg"
    then obtain cfg where "metricsCollector (snd (reloadConfigHandler ext configPath updateFromBody w r))
           = ReloadMetrics (uaParseNodeID ext) (metricsCollector w) cfg" by blast
    then show ?thesis using f [of "uaParseNodeID ext" "metricsCollector w" cfg] by simp
  qed
  have hc: "opcuaClient (metricsCollector (snd (reloadConfigHandler ext configPath updateFromBody w r)))
     = opcuaClient (metricsCollector w)"
    by (subst h) simp
  from f cl h hc show ?thesis by blast
qed

text \<open>
  Claim C6: when a node identifier of the new configuration does not parse, the
  cache build aborts, the installed cache stays, and the error is reported to the
  caller of the reload.  The cache stays for every such reload
  (\<open>ReloadMetrics_bad_node_keeps_collector\<close>).  The error is not reported:
  \<open>loadMetricsCache\<close> returns it, \<open>ReloadMetrics\<close> drops it.  A run of the
  handler: the file holds a metric whose node identifier does not parse; the
  handler answers without an error reply, the configuration holds the new metric,
  \<open>loadMetricsCache\<close> fails on it, and the collector and the registration are
  the ones before the request.
\<close>

theorem reload_error_not_reported:
  "fst (reloadConfigHandler exampleExternals ''opcua.yaml'' False
          (exampleWorld (oneFile ''opcua.yaml'' badNodeYaml) [temperature ''ns=2;i=10853'']
             [cacheEntry (temperature ''ns=2;i=10853'') (NumericNodeID 2 10853)])
          postRequest) = [] \<and>
   metricsConfig (safeConfig (snd (reloadConfigHandler exampleExternals ''opcua.yaml'' False
          (exampleWorld (oneFile ''opcua.yaml'' badNodeYaml) [temperature ''ns=2;i=10853'']
             [cacheEntry (temperature ''ns=2;i=10853'') (NumericNodeID 2 10853)])
          postRequest))) = \<lparr>Metrics = [temperature ''i=-1'']\<rparr> \<and>
   loadMetricsCache exampleParseNodeID
       (exampleCollector [cacheEntry (temperature ''ns=2;i=10853'') (NumericNodeID 2 10853)])
       \<lparr>Metrics = [temperature ''i=-1'']\<rparr>
     = (Some ''invalid node id: invalid numeric id'',
        exampleCollector [cacheEntry (temperature ''ns=2;i=10853'') (NumericNodeID 2 10853)]) \<and>
   metricsCollector (snd (reloadConfigHandler exampleExternals ''opcua.yaml'' False
          (exampleWorld (oneFile ''opcua.yaml'' badNodeYaml) [temperature ''ns=2;i=10853'']
             [cacheEntry (temperature ''ns=2;i=10853'') (NumericNodeID 2 10853)])
          postRequest))
     = exampleCollector [cacheEntry (temperature ''ns=2;i=10853'') (NumericNodeID 2 10853)] \<and>
   registry (snd (reloadConfigHandler exampleExternals ''opcua.yaml'' False
          (exampleWorld (oneFile ''opcua.yaml'' badNodeYaml) [temperature ''ns=2;i=10853'']
             [cacheEntry (temperature ''ns=2;i=10853'') (NumericNodeID 2 10853)])
          postRequest))
     = [exampleCollector [cacheEntry (temperature ''ns=2;i=10853'') (NumericNodeID 2 10853)]]"
proof -
  have lm: "loadMetricsCache exampleParseNodeID k \<lparr>Metrics = [temperature ''i=-1'']\<rparr>
     = (Some ''invalid node id: invalid numeric id'', k)" for k
    by (simp add: loadMetricsCache_def exampleParseNodeID_def temperature_def)
  have rc: "reloadConfig (oneFile ''opcua.yaml'' badNodeYaml) exampleUnmarshal
              (exampleConfig [temperature ''ns=2;i=10853'']) ''opcua.yaml''
            = (None, exampleConfig [temperature ''i=-1''])"
    by (simp add: reloadConfig_def LoadMetricsConfig_def oneFile_def exampleUnmarshal_def
        badNodeYaml_def goodYaml_def exampleConfig_def validate_def temperature_def)
  show ?thesis
    by (simp add: reloadConfigHandler_def exampleWorld_def postRequest_def exampleExternals_def
        rc [unfolded exampleConfig_def] lm ReloadMetrics_def exampleConfig_def
        exampleRegister_def exampleUnregister_def)
qed

section \<open>A missing metrics file: properties\<close>

text \<open>
  Claim C10, as the code has it.  When reading the metrics file fails with
  ``no such file or directory'', loading returns no error and leaves the metrics
  configuration as it was: at startup, where it starts empty, that is zero
  metrics; at a reload the metrics loaded before stay.  The failure for zero
  entries only arises from a file that was read and decoded.
\<close>

theorem missing_file_keeps_config:
  "(fs filename = Inl err \<and> Contains err ''no such file or directory'' \<longrightarrow>
      LoadMetricsConfig fs unmarshal c filename = (None, c) \<and>
      reloadConfig fs unmarshal c filename = (None, c) \<and>
      NewConfig fs unmarshal endpoint certPath keyPath secMode secPolicy authMode username
          password filename
        = Inr \<lparr>serverConfig =
                 \<lparr>Endpoint = endpoint, CertPath = certPath, KeyPath = keyPath,
                  SecPolicy = secPolicy, SecMode = secMode, AuthMode = authMode,
                  Username = username, Password = password\<rparr>,
               metricsConfig = \<lparr>Metrics = []\<rparr>\<rparr>) \<and>
   (fst (LoadMetricsConfig fs unmarshal c filename) = Some MissingMetrics \<longrightarrow>
      (\<exists>content mc. fs filename = Inr content \<and>
          unmarshal content (metricsConfig c) = (None, mc) \<and> Metrics mc = []))"
proof (intro conjI impI)
  assume a: "fs filename = Inl err \<and> Contains err ''no such file or directory''"
  then show l: "LoadMetricsConfig fs unmarshal c filename = (None, c)" for c
    by (simp add: LoadMetricsConfig_def)
  then show "reloadConfig fs unmarshal c filename = (None, c)"
    by (simp add: reloadConfig_def)
  from l show "NewConfig fs unmarshal endpoint certPath keyPath secMode secPolicy authMode username
          password filename
        = Inr \<lparr>serverConfig =
                 \<lparr>Endpoint = endpoint, CertPath = certPath, KeyPath = keyPath,
                  SecPolicy = secPolicy, SecMode = secMode, AuthMode = authMode,
                  Username = username, Password = password\<rparr>,
               metricsConfig = \<lparr>Metrics = []\<rparr>\<rparr>"
    by (simp add: NewConfig_def)
next
  assume m: "fst (LoadMetricsConfig fs unmarshal c filename) = Some MissingMetrics"
  have vf: "validateFrom i ms \<noteq> Some MissingMetrics" for i ms
    by (induction ms arbitrary: i) auto
  from m obtain content where c: "fs filename = Inr content"
    by (cases "fs filename") (auto simp add: LoadMetricsConfig_def split: if_splits)
  obtain e mc where u: "unmarshal content (metricsConfig c) = (e, mc)" by fastforce
  from m c u have e: "e = None" by (cases e) (auto simp add: LoadMetricsConfig_def)
  from m c u e have "validate mc = Some MissingMetrics" by (simp add: LoadMetricsConfig_def)
  then have "Metrics mc = []" using vf by (auto simp add: validate_def split: if_splits)
  with c u e show "\<exists>content mc. fs filename = Inr content \<and>
          unmarshal content (metricsConfig c) = (None, mc) \<and> Metrics mc = []" by blast
qed

text \<open>
  Claim C10 as it is worded fails for the reload: with one metric loaded and the
  file gone, the reload succeeds and the metric is still configured.
\<close>

theorem missing_file_counterexample:
  "fst (reloadConfig noFiles exampleUnmarshal (exampleConfig [temperature ''ns=2;i=10853''])
          ''opcua.yaml'') = None \<and>
   Metrics (metricsConfig (snd (reloadConfig noFiles exampleUnmarshal
          (exampleConfig [temperature ''ns=2;i=10853'']) ''opcua.yaml''))) \<noteq> []"
  by (simp add: reloadConfig_def LoadMetricsConfig_def noFiles_def exampleConfig_def)

text \<open>A missing file at a reload, and an empty metric list in a file that exists.\<close>

theorem missing_file_keeps_config_witness:
  "noFiles ''opcua.yaml'' = Inl ''open opcua.yaml: no such file or directory'' \<and>
   Contains ''open opcua.yaml: no such file or directory'' ''no such file or directory'' \<and>
   reloadConfig noFiles exampleUnmarshal (exampleConfig [temperature ''ns=2;i=10853''])
       ''opcua.yaml'' = (None, exampleConfig [temperature ''ns=2;i=10853'']) \<and>
   fst (LoadMetricsConfig (oneFile ''opcua.yaml'' emptyYaml) exampleUnmarshal
          (exampleConfig [temperature ''ns=2;i=10853'']) ''opcua.yaml'') = Some MissingMetrics \<and>
   oneFile ''opcua.yaml'' emptyYaml ''opcua.yaml'' = Inr emptyYaml"
proof -
  have a: "noFiles ''opcua.yaml'' = Inl ''open opcua.yaml: no such file or directory''"
    by (simp add: noFiles_def)
  have b: "Contains ''open opcua.yaml: no such file or directory'' ''no such file or directory''"
    by simp
  have c: "fst (LoadMetricsConfig (oneFile ''opcua.yaml'' emptyYaml) exampleUnmarshal
          (exampleConfig [temperature ''ns=2;i=10853'']) ''opcua.yaml'') = Some MissingMetrics"
    by (simp add: LoadMetricsConfig_def oneFile_def exampleUnmarshal_def emptyYaml_def
        goodYaml_def badNodeYaml_def validate_def)
  have d: "oneFile ''opcua.yaml'' emptyYaml ''opcua.yaml'' = Inr emptyYaml"
    by (simp add: oneFile_def)
  from missing_file_keeps_config [of noFiles "''opcua.yaml''"
         "''open opcua.yaml: no such file or directory''" exampleUnmarshal
         "exampleConfig [temperature ''ns=2;i=10853'']"] a b
  have e: "reloadConfig noFiles exampleUnmarshal (exampleConfig [temperature ''ns=2;i=10853''])
       ''opcua.yaml'' = (None, exampleConfig [temperature ''ns=2;i=10853''])"
    by blast
  from missing_file_keeps_config [of "oneFile ''opcua.yaml'' emptyYaml" "''opcua.yaml''" _
         exampleUnmarshal "exampleConfig [temperature ''ns=2;i=10853'']"] c
  have "\<exists>content mc. oneFile ''opcua.yaml'' emptyYaml ''opcua.yaml'' = Inr content \<and>
          exampleUnmarshal content (metricsConfig (exampleConfig [temperature ''ns=2;i=10853'']))
            = (None, mc) \<and> Metrics mc = []"
    by blast
  with a b c d e show ?thesis by simp
qed
section \<open>The poll round: properties\<close>














end
